theory Spec2Isabelle
  imports Complex_Main
begin

section \<open>The breakout signal engine of tradingbot.py\<close>

text \<open>
  A shallow embedding of the analytical part of \<^verbatim>\<open>src/tradingbot.py\<close>:
  \<^verbatim>\<open>calculate_winrate\<close>, \<^verbatim>\<open>determine_trend\<close> and \<^verbatim>\<open>analyze_volatility\<close>.

  Numbers. The frames hold Python floats (\<^verbatim>\<open>astype(float)\<close>). They are modelled by the
  real numbers with exact arithmetic, extended by the value NaN that pandas uses for an
  undefined entry: a \<open>float\<close> is a \<open>real option\<close> and \<open>None\<close> is NaN. Candle prices themselves
  are finite, hence plain reals. Binary rounding error of the machine type is not modelled.

  Network. \<^verbatim>\<open>get_deriv_data\<close> performs an HTTP request; what it returns (a frame, or
  \<^verbatim>\<open>None\<close>) is an input of the model.
\<close>

subsection \<open>Floats with NaN\<close>

type_synonym float = "real option"

definition f_add :: "float \<Rightarrow> float \<Rightarrow> float" where
  "f_add a b = (case a of None \<Rightarrow> None | Some x \<Rightarrow> (case b of None \<Rightarrow> None | Some y \<Rightarrow> Some (x + y)))"

definition f_sub :: "float \<Rightarrow> float \<Rightarrow> float" where
  "f_sub a b = (case a of None \<Rightarrow> None | Some x \<Rightarrow> (case b of None \<Rightarrow> None | Some y \<Rightarrow> Some (x - y)))"

definition f_mul :: "float \<Rightarrow> float \<Rightarrow> float" where
  "f_mul a b = (case a of None \<Rightarrow> None | Some x \<Rightarrow> (case b of None \<Rightarrow> None | Some y \<Rightarrow> Some (x * y)))"

text \<open>A comparison with NaN on either side is false.\<close>

definition f_gt :: "float \<Rightarrow> float \<Rightarrow> bool" where
  "f_gt a b = (case a of None \<Rightarrow> False | Some x \<Rightarrow> (case b of None \<Rightarrow> False | Some y \<Rightarrow> x > y))"

definition f_lt :: "float \<Rightarrow> float \<Rightarrow> bool" where
  "f_lt a b = (case a of None \<Rightarrow> False | Some x \<Rightarrow> (case b of None \<Rightarrow> False | Some y \<Rightarrow> x < y))"

text \<open>
  Python's \<^verbatim>\<open>round(x, n)\<close> and the format \<^verbatim>\<open>.1f\<close> round to the nearest value and send
  a tie to the even neighbour.
\<close>

definition round_half_even :: "real \<Rightarrow> int" where
  "round_half_even x =
     (let f = \<lfloor>x\<rfloor>; d = x - of_int f
      in if d < 1 / 2 then f else if d > 1 / 2 then f + 1 else if even f then f else f + 1)"

definition py_round :: "real \<Rightarrow> nat \<Rightarrow> real" where
  "py_round x n = of_int (round_half_even (x * 10 ^ n)) / 10 ^ n"

definition f_round :: "float \<Rightarrow> nat \<Rightarrow> float" where
  "f_round a n = (case a of None \<Rightarrow> None | Some x \<Rightarrow> Some (py_round x n))"

subsection \<open>Exceptions\<close>

datatype py_error = IndexError | ZeroDivisionError

definition iloc_last :: "'a list \<Rightarrow> py_error + 'a" where
  \<comment> \<open>\<^verbatim>\<open>series.iloc[-1]\<close>\<close>
  "iloc_last xs = (if xs = [] then Inl IndexError else Inr (last xs))"

subsection \<open>Candles and frames\<close>

record candle =
  time :: int
  open_price :: real
  high :: real
  low :: real
  close :: real

type_synonym column = "float list"

text \<open>
  The frame built by \<^verbatim>\<open>get_deriv_data\<close>: one row per candle, indexed by time. The code
  later attaches the columns \<^verbatim>\<open>ATR\<close>, \<^verbatim>\<open>EMA20\<close> and \<^verbatim>\<open>EMA50\<close> to it; a column that has
  not been attached is \<open>None\<close>.
\<close>

record dataframe =
  rows :: "candle list"
  ATR :: "column option"
  EMA20 :: "column option"
  EMA50 :: "column option"

definition len :: "dataframe \<Rightarrow> nat" where
  "len df = length (rows df)"

definition highs :: "dataframe \<Rightarrow> real list" where
  "highs df = map high (rows df)"

definition lows :: "dataframe \<Rightarrow> real list" where
  "lows df = map low (rows df)"

definition closes :: "dataframe \<Rightarrow> real list" where
  "closes df = map close (rows df)"

subsection \<open>pandas: rolling windows and percentage change\<close>

text \<open>
  \<^verbatim>\<open>s.rolling(w).min()\<close> and \<^verbatim>\<open>s.rolling(w).max()\<close>: entry \<open>i\<close> is NaN while fewer than
  \<open>w\<close> values are available, and the aggregate of the values \<open>i - w + 1 .. i\<close> afterwards.
\<close>

definition rolling :: "(real set \<Rightarrow> real) \<Rightarrow> nat \<Rightarrow> real list \<Rightarrow> column" where
  "rolling agg w xs =
     map (\<lambda>i. if i + 1 < w then None else Some (agg (set (take w (drop (i + 1 - w) xs)))))
       [0..<length xs]"

definition rolling_min :: "nat \<Rightarrow> real list \<Rightarrow> column" where
  "rolling_min w xs = rolling Min w xs"

definition rolling_max :: "nat \<Rightarrow> real list \<Rightarrow> column" where
  "rolling_max w xs = rolling Max w xs"

text \<open>
  \<^verbatim>\<open>s.pct_change()\<close> is \<^verbatim>\<open>s / s.shift(1) - 1\<close>. A float division by zero does not
  raise: it gives an infinity, or NaN for \<open>0 / 0\<close>.
\<close>

datatype change = NaN | NegInf | Fin real | PosInf

definition pct :: "real \<Rightarrow> real \<Rightarrow> change" where
  "pct prev cur =
     (if prev = 0 then (if cur = 0 then NaN else if cur > 0 then PosInf else NegInf)
      else Fin (cur / prev - 1))"

fun pct_from :: "real \<Rightarrow> real list \<Rightarrow> change list" where
  "pct_from prev [] = []"
| "pct_from prev (x # xs) = pct prev x # pct_from x xs"

definition pct_change :: "real list \<Rightarrow> change list" where
  "pct_change xs = (case xs of [] \<Rightarrow> [] | x # ys \<Rightarrow> NaN # pct_from x ys)"

definition dropna :: "change list \<Rightarrow> change list" where
  "dropna cs = filter (\<lambda>c. c \<noteq> NaN) cs"

definition positive :: "change \<Rightarrow> bool" where
  \<comment> \<open>\<^verbatim>\<open>changes > 0\<close>\<close>
  "positive c = (case c of NaN \<Rightarrow> False | NegInf \<Rightarrow> False | Fin r \<Rightarrow> r > 0 | PosInf \<Rightarrow> True)"

subsection \<open>Number formatting\<close>

fun show_nat :: "nat \<Rightarrow> string" where
  "show_nat n =
     (if n < 10 then [''0123456789'' ! n]
      else show_nat (n div 10) @ [''0123456789'' ! (n mod 10)])"

declare show_nat.simps [simp del]

definition fmt_1f :: "real \<Rightarrow> string" where
  \<comment> \<open>the format specification \<^verbatim>\<open>.1f\<close>\<close>
  "fmt_1f x =
     (let t = nat (round_half_even (\<bar>x\<bar> * 10))
      in (if x < 0 then ''-'' else []) @ show_nat (t div 10) @ ''.'' @ show_nat (t mod 10))"

subsection \<open>pandas_ta: EMA and ATR\<close>

text \<open>
  Modelled from the spec: the library functions \<^verbatim>\<open>ta.ema\<close> and \<^verbatim>\<open>ta.atr\<close> (package
  pandas_ta) are called by the code and are not part of the repository. The EMA follows
  section 4.2 of the specification: the first \<open>period - 1\<close> entries are undefined, the next
  one is the simple average of the first \<open>period\<close> values, and every later one is
  \<open>prev + factor * (value - prev)\<close> with factor \<open>2 / (period + 1)\<close>.
\<close>

fun ema_from :: "real \<Rightarrow> real \<Rightarrow> real list \<Rightarrow> real list" where
  "ema_from k prev [] = [prev]"
| "ema_from k prev (x # xs) = prev # ema_from k (prev + k * (x - prev)) xs"

definition ema :: "real list \<Rightarrow> nat \<Rightarrow> column" where
  "ema xs period =
     (if period = 0 \<or> length xs < period then replicate (length xs) None
      else replicate (period - 1) None @
           map Some (ema_from (2 / (real period + 1))
                       (sum_list (take period xs) / real period) (drop period xs)))"

text \<open>
  Modelled from the spec: the true range of a bar is
  \<open>max (high - low) \<bar>high - prevClose\<bar> \<bar>low - prevClose\<bar>\<close> (section 4.2); the first bar
  has no previous close and its true range is undefined. The specification leaves the
  smoothing open; the model takes the library's default, Wilder's moving average, which
  pandas_ta computes as the exponentially weighted mean
  \<^verbatim>\<open>ewm(alpha=1/length, min_periods=length).mean()\<close>.
\<close>

definition tr :: "real \<Rightarrow> real \<Rightarrow> real \<Rightarrow> real" where
  "tr h l prev_close = max (h - l) (max \<bar>h - prev_close\<bar> \<bar>l - prev_close\<bar>)"

definition true_range :: "real list \<Rightarrow> real list \<Rightarrow> real list \<Rightarrow> column" where
  "true_range hs ls cs =
     (if hs = [] then []
      else None # map (\<lambda>(h, l, pc). Some (tr h l pc)) (zip (tl hs) (zip (tl ls) cs)))"

text \<open>
  The weighted mean of pandas (\<^verbatim>\<open>adjust=True\<close>, \<^verbatim>\<open>ignore_na=False\<close>): the state is the
  current mean, the weight of the past and the number of observations so far; an entry is
  reported once \<open>minp\<close> observations have been seen.
\<close>

fun ewm_from :: "real \<Rightarrow> nat \<Rightarrow> float \<Rightarrow> real \<Rightarrow> nat \<Rightarrow> column \<Rightarrow> column" where
  "ewm_from a minp w old_wt nobs [] = []"
| "ewm_from a minp w old_wt nobs (cur # vs) =
     (let nobs' = (if cur = None then nobs else nobs + 1);
          w' = (case w of None \<Rightarrow> cur
                | Some wv \<Rightarrow> (case cur of None \<Rightarrow> w
                    | Some c \<Rightarrow> Some ((old_wt * (1 - a) * wv + c) / (old_wt * (1 - a) + 1))));
          old_wt' = (case w of None \<Rightarrow> old_wt
                | Some wv \<Rightarrow> (case cur of None \<Rightarrow> old_wt * (1 - a)
                    | Some c \<Rightarrow> old_wt * (1 - a) + 1))
      in (if nobs' \<ge> minp then w' else None) # ewm_from a minp w' old_wt' nobs' vs)"

definition rma :: "column \<Rightarrow> nat \<Rightarrow> column" where
  "rma xs n = ewm_from (1 / real n) n None 1 0 xs"

definition atr :: "real list \<Rightarrow> real list \<Rightarrow> real list \<Rightarrow> nat \<Rightarrow> column" where
  "atr hs ls cs n = rma (true_range hs ls cs) n"

subsection \<open>The functions of tradingbot.py\<close>

definition try_bind :: "py_error + 'a \<Rightarrow> ('a \<Rightarrow> py_error + 'b) \<Rightarrow> py_error + 'b" where
  \<comment> \<open>sequencing inside a \<^verbatim>\<open>try\<close> block: the first exception ends the block\<close>
  "try_bind m f = (case m of Inl e \<Rightarrow> Inl e | Inr x \<Rightarrow> f x)"

definition calculate_winrate :: "dataframe \<Rightarrow> py_error + string" where
  "calculate_winrate data =
     (if len data < 100 then Inr ''N/A''
      else let changes = dropna (pct_change (closes data))
           in if length changes = 0 then Inl ZeroDivisionError
              else Inr (fmt_1f (real (length (filter positive changes)) / real (length changes) * 100)
                        @ ''%''))"

text \<open>
  \<^verbatim>\<open>determine_trend\<close> writes the two EMA columns into the frame it is given; the model
  returns the label together with the frame as the caller sees it afterwards.
\<close>

definition determine_trend :: "dataframe \<Rightarrow> py_error + (string \<times> dataframe)" where
  "determine_trend data =
     (if len data < 50 then Inr (''N/A'', data)
      else let e20 = ema (closes data) 20;
               data1 = data\<lparr>EMA20 := Some e20\<rparr>;
               e50 = ema (closes data1) 50;
               data2 = data1\<lparr>EMA50 := Some e50\<rparr>
           in try_bind (iloc_last e20) (\<lambda>a.
              try_bind (iloc_last e50) (\<lambda>b.
              Inr (if f_gt a b then ''Up trend'' else ''Down trend'', data2))))"

record analysis =
  symbol :: string
  signal :: string
  winrate :: string
  trend :: string
  entry :: float
  sl :: float
  tp1 :: float
  tp2 :: float

definition attach_atr :: "dataframe \<Rightarrow> dataframe" where
  \<comment> \<open>\<^verbatim>\<open>df['ATR'] = ta.atr(df['high'], df['low'], df['close'], 14)\<close>\<close>
  "attach_atr df = df\<lparr>ATR := Some (atr (highs df) (lows df) (closes df) 14)\<rparr>"

definition column_ATR :: "dataframe \<Rightarrow> column" where
  \<comment> \<open>\<^verbatim>\<open>df['ATR']\<close>, read only after the column has been attached\<close>
  "column_ATR df = (case ATR df of None \<Rightarrow> [] | Some c \<Rightarrow> c)"

definition detect :: "float \<Rightarrow> float \<Rightarrow> float \<Rightarrow> float \<Rightarrow> string \<Rightarrow> float \<Rightarrow>
    (string \<times> float \<times> float) option" where
  \<comment> \<open>lines 174 to 179: the value of the variable \<^verbatim>\<open>signal\<close>\<close>
  "detect last_close support resistance buffer trend' atr_sl =
     (if f_gt last_close (f_add resistance buffer) \<and> trend' = ''Up trend''
      then Some (''BUY'', last_close, f_sub last_close (f_mul atr_sl (Some 3)))
      else if f_lt last_close (f_sub support buffer) \<and> trend' = ''Down trend''
      then Some (''SELL'', last_close, f_add last_close (f_mul atr_sl (Some 3)))
      else None)"

text \<open>
  The body of the \<^verbatim>\<open>try\<close> block of \<^verbatim>\<open>analyze_volatility\<close> after the three length
  checks (lines 160 to 199). \<open>Inr None\<close> is the path \<^verbatim>\<open>if not signal: return None\<close>.
  The variables \<^verbatim>\<open>symbol\<close>, \<^verbatim>\<open>trend\<close>, \<^verbatim>\<open>entry\<close>, \<^verbatim>\<open>sl\<close>, \<^verbatim>\<open>tp1\<close> and \<^verbatim>\<open>tp2\<close>
  carry a prime, since the plain names are the fields of the returned dictionary.
\<close>

definition analysis_body :: "string \<Rightarrow> dataframe \<Rightarrow> dataframe \<Rightarrow> dataframe \<Rightarrow>
    py_error + analysis option" where
  "analysis_body symbol' df_15m0 df_5m0 df_1m =
     (let df_5m = attach_atr df_5m0;
          df_15m = attach_atr df_15m0
      in try_bind (iloc_last (column_ATR df_5m)) (\<lambda>atr_sl.
         try_bind (iloc_last (column_ATR df_15m)) (\<lambda>atr_tp.
         try_bind (iloc_last (rolling_min 50 (lows df_15m))) (\<lambda>support.
         try_bind (iloc_last (rolling_max 50 (highs df_15m))) (\<lambda>resistance.
         try_bind (iloc_last (map Some (closes df_1m))) (\<lambda>last_close.
         let buffer = f_mul (Some 0.005) (f_sub resistance support)
         in try_bind (determine_trend df_15m) (\<lambda>(trend', df_15m').
            case detect last_close support resistance buffer trend' atr_sl of
              None \<Rightarrow> Inr None
            | Some (direction, entry', sl') \<Rightarrow>
                let tp1' = (if direction = ''BUY'' then f_add entry' (f_mul atr_tp (Some 1))
                            else f_sub entry' (f_mul atr_tp (Some 1)));
                    tp2' = (if direction = ''BUY'' then f_add entry' (f_mul atr_tp (Some 2))
                            else f_sub entry' (f_mul atr_tp (Some 2)))
                in try_bind (calculate_winrate df_15m') (\<lambda>wr.
                   Inr (Some \<lparr>symbol = symbol', signal = direction, winrate = wr, trend = trend',
                              entry = f_round entry' 5, sl = f_round sl' 5,
                              tp1 = f_round tp1' 5, tp2 = f_round tp2' 5\<rparr>)))))))))"

text \<open>
  What a call of \<^verbatim>\<open>analyze_volatility\<close> does: the lines it writes to the log, and the
  value it returns. The value is \<^verbatim>\<open>None\<close> on every path but the last one; the paths
  differ only in the line they log (lines 145, 151 and 157; line 182; line 202).
\<close>

datatype log_line =
    Error_insufficient string
      \<comment> \<open>\<^verbatim>\<open>app.logger.error\<close> of \<^verbatim>\<open>Error: Insufficient <timeframe> data for <symbol>\<close>\<close>
  | Info_no_signal
      \<comment> \<open>\<^verbatim>\<open>app.logger.info\<close> of \<^verbatim>\<open>No signal: <symbol> at <last close>\<close>\<close>
  | Error_analysis py_error
      \<comment> \<open>\<^verbatim>\<open>app.logger.error\<close> of \<^verbatim>\<open>Analysis Error: <exception>\<close>, in the handler\<close>

text \<open>
  The arguments \<open>got_15m\<close>, \<open>got_5m\<close> and \<open>got_1m\<close> are what \<^verbatim>\<open>get_deriv_data\<close> returns
  for the timeframes \<^verbatim>\<open>15m\<close>, \<^verbatim>\<open>5m\<close> and \<^verbatim>\<open>1m\<close>. The result is the pair of the
  lines logged and the value returned to the caller.
\<close>

definition analyze_volatility ::
    "string \<Rightarrow> dataframe option \<Rightarrow> dataframe option \<Rightarrow> dataframe option \<Rightarrow>
     log_line list \<times> analysis option" where
  "analyze_volatility symbol' got_15m got_5m got_1m =
     (case got_15m of None \<Rightarrow> ([Error_insufficient ''15m''], None) | Some df_15m \<Rightarrow>
        if len df_15m < 100 then ([Error_insufficient ''15m''], None)
        else (case got_5m of None \<Rightarrow> ([Error_insufficient ''5m''], None) | Some df_5m \<Rightarrow>
          if len df_5m < 50 then ([Error_insufficient ''5m''], None)
          else (case got_1m of None \<Rightarrow> ([Error_insufficient ''1m''], None) | Some df_1m \<Rightarrow>
            if len df_1m < 10 then ([Error_insufficient ''1m''], None)
            else (case analysis_body symbol' df_15m df_5m df_1m of
                    Inl e \<Rightarrow> ([Error_analysis e], None)
                  | Inr None \<Rightarrow> ([Info_no_signal], None)
                  | Inr (Some a) \<Rightarrow> ([], Some a)))))"

subsection \<open>The quantities of one analysis\<close>

text \<open>
  Names for the values that \<^verbatim>\<open>analyze_volatility\<close> reads off its frames once the length
  checks have passed. The lemmas below show that the code computes exactly these.
\<close>

text \<open>The latest value of the column \<open>ema xs p\<close>.\<close>

definition ema_last :: "real list \<Rightarrow> nat \<Rightarrow> real" where
  "ema_last xs p = last (ema_from (2 / (real p + 1)) (sum_list (take p xs) / real p) (drop p xs))"

definition trend_label :: "dataframe \<Rightarrow> string" where
  "trend_label df =
     (if ema_last (closes df) 20 > ema_last (closes df) 50 then ''Up trend'' else ''Down trend'')"

definition support_level :: "dataframe \<Rightarrow> real" where
  "support_level df = Min (set (drop (len df - 50) (lows df)))"

definition resistance_level :: "dataframe \<Rightarrow> real" where
  "resistance_level df = Max (set (drop (len df - 50) (highs df)))"

text \<open>The dictionary returned for a BUY and for a SELL signal.\<close>

definition buy_result :: "string \<Rightarrow> string \<Rightarrow> real \<Rightarrow> real \<Rightarrow> real \<Rightarrow> analysis" where
  "buy_result s w last_close atr_sl atr_tp =
     \<lparr>symbol = s, signal = ''BUY'', winrate = w, trend = ''Up trend'',
      entry = Some (py_round last_close 5),
      sl = Some (py_round (last_close - atr_sl * 3) 5),
      tp1 = Some (py_round (last_close + atr_tp * 1) 5),
      tp2 = Some (py_round (last_close + atr_tp * 2) 5)\<rparr>"

definition sell_result :: "string \<Rightarrow> string \<Rightarrow> real \<Rightarrow> real \<Rightarrow> real \<Rightarrow> analysis" where
  "sell_result s w last_close atr_sl atr_tp =
     \<lparr>symbol = s, signal = ''SELL'', winrate = w, trend = ''Down trend'',
      entry = Some (py_round last_close 5),
      sl = Some (py_round (last_close + atr_sl * 3) 5),
      tp1 = Some (py_round (last_close - atr_tp * 1) 5),
      tp2 = Some (py_round (last_close - atr_tp * 2) 5)\<rparr>"

subsection \<open>Sample frames\<close>

text \<open>
  A frame as \<^verbatim>\<open>get_deriv_data\<close> builds it, with no column attached yet, and a run of
  \<open>n\<close> equal candles one minute apart starting at time \<open>t0\<close>.
\<close>

definition frame :: "candle list \<Rightarrow> dataframe" where
  "frame cs = \<lparr>rows = cs, ATR = None, EMA20 = None, EMA50 = None\<rparr>"

definition bars :: "int \<Rightarrow> nat \<Rightarrow> real \<Rightarrow> real \<Rightarrow> real \<Rightarrow> real \<Rightarrow> candle list" where
  "bars t0 n opn h l c =
     map (\<lambda>i. \<lparr>time = t0 + 60 * int i, open_price = opn, high = h, low = l, close = c\<rparr>) [0..<n]"

text \<open>A market that does not move, and an entry series below it.\<close>

definition flat_15m :: dataframe where
  "flat_15m = frame (bars 0 100 100 100 100 100)"

definition flat_5m :: dataframe where
  "flat_5m = frame (bars 0 50 100 100 100 100)"

definition below_1m :: dataframe where
  "below_1m = frame (bars 0 10 99 99 99 99)"

text \<open>A trend series whose last candle closes higher, and an entry series above it.\<close>

definition rising_15m :: dataframe where
  "rising_15m = frame (bars 0 99 100 105 95 100 @ bars 5940 1 100 110 100 110)"

definition ranging_5m :: dataframe where
  "ranging_5m = frame (bars 0 50 100 101 100 100)"

definition above_1m :: dataframe where
  "above_1m = frame (bars 0 10 120 120 120 120)"

text \<open>A trend series whose closes are all zero, and an entry series below it.\<close>

definition zero_15m :: dataframe where
  "zero_15m = frame (bars 0 100 0 0 0 0)"

definition negative_1m :: dataframe where
  "negative_1m = frame (bars 0 10 (-1) (-1) (-1) (-1))"

text \<open>
  A trend series whose last candle closes lower, an entry series far below it, and an
  entry series inside the range of the flat market.
\<close>

definition falling_15m :: dataframe where
  "falling_15m = frame (bars 0 99 100 105 95 100 @ bars 5940 1 100 100 90 90)"

definition far_below_1m :: dataframe where
  "far_below_1m = frame (bars 0 10 80 80 80 80)"

definition inside_1m :: dataframe where
  "inside_1m = frame (bars 0 10 100 100 100 100)"

text \<open>The seven closes of the win-rate example of the specification, as a frame.\<close>

definition closing :: "int \<Rightarrow> real \<Rightarrow> candle" where
  "closing t c = \<lparr>time = t, open_price = c, high = c, low = c, close = c\<rparr>"

definition seven_closes :: dataframe where
  "seven_closes =
     frame [closing 0 10, closing 60 11, closing 120 10, closing 180 12, closing 240 13,
            closing 300 12, closing 360 14]"

section \<open>Lemmas about the model\<close>

lemma iloc_last_nonempty: "xs \<noteq> [] \<Longrightarrow> iloc_last xs = Inr (last xs)"
  by (simp add: iloc_last_def)

lemma length_rolling [simp]: "length (rolling agg w xs) = length xs"
  by (simp add: rolling_def)

lemma last_rolling:
  assumes "0 < w" "w \<le> length xs"
  shows "last (rolling agg w xs) = Some (agg (set (drop (length xs - w) xs)))"
proof -
  from assms have ne: "xs \<noteq> []" by auto
  then have "[0..<length xs] \<noteq> []" by simp
  then have "last (rolling agg w xs) =
      (\<lambda>i. if i + 1 < w then None else Some (agg (set (take w (drop (i + 1 - w) xs)))))
        (last [0..<length xs])"
    unfolding rolling_def by (rule last_map)
  also have "last [0..<length xs] = length xs - 1"
    using ne by (simp add: last_upt)
  finally show ?thesis using assms by simp
qed

lemma iloc_last_rolling:
  assumes "0 < w" "w \<le> length xs"
  shows "iloc_last (rolling agg w xs) = Inr (Some (agg (set (drop (length xs - w) xs))))"
proof -
  have "rolling agg w xs \<noteq> []" using assms by (auto simp: rolling_def)
  then show ?thesis using last_rolling [OF assms] by (simp add: iloc_last_def)
qed

lemma length_ema_from [simp]: "length (ema_from k p xs) = Suc (length xs)"
  by (induction xs arbitrary: p) simp_all

lemma ema_from_nonempty [simp]: "ema_from k p xs \<noteq> []"
  by (cases xs) simp_all

lemma length_ema [simp]: "length (ema xs p) = length xs"
  by (auto simp: ema_def)

lemma iloc_last_ema:
  assumes "0 < p" "p \<le> length xs"
  shows "iloc_last (ema xs p) =
    Inr (Some (last (ema_from (2 / (real p + 1)) (sum_list (take p xs) / real p) (drop p xs))))"
  using assms by (simp add: ema_def iloc_last_def last_map)

lemma length_ewm_from [simp]: "length (ewm_from a m w ow n vs) = length vs"
  by (induction vs arbitrary: w ow n) (simp_all add: Let_def)

lemma ewm_from_Nil_iff [simp]: "ewm_from a m w ow n vs = [] \<longleftrightarrow> vs = []"
  by (cases vs) (simp_all add: Let_def)

lemma last_ewm_from_nonneg:
  assumes "vs \<noteq> []" "\<forall>v \<in> set vs. \<exists>t. v = Some t \<and> 0 \<le> t" "m \<le> n + length vs"
    "0 < ow" "0 \<le> a" "a \<le> 1" "\<forall>wv. w = Some wv \<longrightarrow> 0 \<le> wv"
  shows "\<exists>r. last (ewm_from a m w ow n vs) = Some r \<and> 0 \<le> r"
  using assms
proof (induction vs arbitrary: w ow n)
  case Nil
  then show ?case by simp
next
  case (Cons v vs)
  from Cons.prems obtain t where t: "v = Some t" "0 \<le> t" by auto
  define ow1 where "ow1 = ow * (1 - a)"
  have ow1: "0 \<le> ow1" using Cons.prems by (simp add: ow1_def)
  define w' where "w' = (case w of None \<Rightarrow> t | Some wv \<Rightarrow> (ow1 * wv + t) / (ow1 + 1))"
  define ow' where "ow' = (case w of None \<Rightarrow> ow | Some wv \<Rightarrow> ow1 + 1)"
  have w'0: "0 \<le> w'"
    using t ow1 Cons.prems(7) by (auto simp: w'_def split: option.splits)
  have ow'0: "0 < ow'"
    using ow1 Cons.prems(4) by (auto simp: ow'_def split: option.splits)
  have step: "ewm_from a m w ow n (v # vs) =
      (if m \<le> n + 1 then Some w' else None) # ewm_from a m (Some w') ow' (n + 1) vs"
    by (simp add: t w'_def ow'_def ow1_def Let_def split: option.splits)
  show ?case
  proof (cases "vs = []")
    case True
    then show ?thesis using step Cons.prems(3) w'0 by simp
  next
    case False
    have "\<exists>r. last (ewm_from a m (Some w') ow' (n + 1) vs) = Some r \<and> 0 \<le> r"
      using False Cons.prems w'0 ow'0 by (intro Cons.IH) auto
    then show ?thesis using step False by (simp del: ewm_from.simps)
  qed
qed

lemma last_ewm_from_const:
  assumes "vs \<noteq> []" "\<forall>v \<in> set vs. v = Some t" "m \<le> n + length vs"
    "0 < ow" "a \<le> 1" "w = None \<or> w = Some t"
  shows "last (ewm_from a m w ow n vs) = Some t"
  using assms
proof (induction vs arbitrary: w ow n)
  case Nil
  then show ?case by simp
next
  case (Cons v vs)
  have v: "v = Some t" using Cons.prems by simp
  define ow1 where "ow1 = ow * (1 - a)"
  have ow1: "0 \<le> ow1" using Cons.prems by (simp add: ow1_def)
  define ow' where "ow' = (case w of None \<Rightarrow> ow | Some wv \<Rightarrow> ow1 + 1)"
  have ow'0: "0 < ow'"
    using ow1 Cons.prems(4) by (auto simp: ow'_def split: option.splits)
  have avg: "(ow1 * t + t) / (ow1 + 1) = t"
  proof -
    have "ow1 * t + t = t * (ow1 + 1)" by (simp add: algebra_simps)
    moreover have "ow1 + 1 \<noteq> 0" using ow1 by simp
    ultimately show ?thesis by simp
  qed
  have step: "ewm_from a m w ow n (v # vs) =
      (if m \<le> n + 1 then Some t else None) # ewm_from a m (Some t) ow' (n + 1) vs"
    using Cons.prems(6) avg by (auto simp: v ow'_def ow1_def Let_def)
  show ?case
  proof (cases "vs = []")
    case True
    then show ?thesis using step Cons.prems(3) by simp
  next
    case False
    have "last (ewm_from a m (Some t) ow' (n + 1) vs) = Some t"
      using False Cons.prems ow'0 by (intro Cons.IH) auto
    then show ?thesis using step False by (simp del: ewm_from.simps)
  qed
qed

lemma tr_nonneg: "0 \<le> tr h l pc"
  by (simp add: tr_def le_max_iff_disj)

lemma true_range_shape:
  assumes "hs \<noteq> []"
  shows "true_range hs ls cs = None # map (\<lambda>(h, l, pc). Some (tr h l pc)) (zip (tl hs) (zip (tl ls) cs))"
  using assms by (simp add: true_range_def)

lemma length_true_range:
  assumes "length ls = length hs" "length cs = length hs"
  shows "length (true_range hs ls cs) = length hs"
  using assms by (cases hs) (auto simp: true_range_def)

lemma rma_leading_nan: "rma (None # vs) n = None # ewm_from (1 / real n) n None 1 0 vs"
  by (simp add: rma_def)

lemma last_atr_nonneg:
  assumes "length ls = length hs" "length cs = length hs" "n < length hs" "0 < n"
  shows "\<exists>r. iloc_last (atr hs ls cs n) = Inr (Some r) \<and> 0 \<le> r"
proof -
  define ts where "ts = map (\<lambda>(h, l, pc). Some (tr h l pc)) (zip (tl hs) (zip (tl ls) cs))"
  have hs: "hs \<noteq> []" using assms by auto
  have len: "length ts = length hs - 1" using assms by (simp add: ts_def)
  have ne: "ts \<noteq> []" using len assms by auto
  have all: "\<forall>v \<in> set ts. \<exists>t. v = Some t \<and> 0 \<le> t"
    by (auto simp: ts_def tr_nonneg)
  have a: "0 \<le> 1 / real n" "1 / real n \<le> 1" using assms by simp_all
  have "\<exists>r. last (ewm_from (1 / real n) n None 1 0 ts) = Some r \<and> 0 \<le> r"
    using ne all a len assms by (intro last_ewm_from_nonneg) auto
  then obtain r where r: "last (ewm_from (1 / real n) n None 1 0 ts) = Some r" "0 \<le> r" by blast
  have "atr hs ls cs n = None # ewm_from (1 / real n) n None 1 0 ts"
    by (simp add: atr_def true_range_shape [OF hs] rma_leading_nan ts_def)
  then show ?thesis using r ne by (simp add: iloc_last_def)
qed

lemma last_atr_const:
  assumes "length ls = length hs" "length cs = length hs" "n < length hs" "0 < n"
    "\<forall>i. Suc i < length hs \<longrightarrow> tr (hs ! Suc i) (ls ! Suc i) (cs ! i) = t"
  shows "iloc_last (atr hs ls cs n) = Inr (Some t)"
proof -
  define ts where "ts = map (\<lambda>(h, l, pc). Some (tr h l pc)) (zip (tl hs) (zip (tl ls) cs))"
  have hs: "hs \<noteq> []" using assms by auto
  have len: "length ts = length hs - 1" using assms by (simp add: ts_def)
  have ne: "ts \<noteq> []" using len assms by auto
  have all: "\<forall>v \<in> set ts. v = Some t"
  proof
    fix v assume "v \<in> set ts"
    then obtain i where i: "i < length ts" "v = ts ! i" by (auto simp: in_set_conv_nth)
    have "Suc i < length hs" using i len by simp
    then have "tr (hs ! Suc i) (ls ! Suc i) (cs ! i) = t" using assms(5) by blast
    moreover have "ts ! i = Some (tr (hs ! Suc i) (ls ! Suc i) (cs ! i))"
      using i len assms by (simp add: ts_def nth_tl)
    ultimately show "v = Some t" using i by simp
  qed
  have "last (ewm_from (1 / real n) n None 1 0 ts) = Some t"
    using ne all len assms by (intro last_ewm_from_const) auto
  moreover have "atr hs ls cs n = None # ewm_from (1 / real n) n None 1 0 ts"
    by (simp add: atr_def true_range_shape [OF hs] rma_leading_nan ts_def)
  ultimately show ?thesis using ne by (simp add: iloc_last_def)
qed

lemma round_half_even_floor: "\<lfloor>x\<rfloor> \<le> round_half_even x" "round_half_even x \<le> \<lfloor>x\<rfloor> + 1"
  by (simp_all add: round_half_even_def Let_def)

lemma round_half_even_bounds:
  "x - 1 / 2 \<le> of_int (round_half_even x)" "of_int (round_half_even x) \<le> x + 1 / 2"
proof -
  define f where "f = \<lfloor>x\<rfloor>"
  have fl: "of_int f \<le> x" "x < of_int f + 1" unfolding f_def by linarith+
  consider "x - of_int f < 1 / 2" | "x - of_int f > 1 / 2" | "x - of_int f = 1 / 2"
    by linarith
  then have "x - 1 / 2 \<le> of_int (round_half_even x) \<and> of_int (round_half_even x) \<le> x + 1 / 2"
  proof cases
    case 1
    then have "round_half_even x = f" by (simp add: round_half_even_def f_def)
    then show ?thesis using fl 1 by simp
  next
    case 2
    then have "round_half_even x = f + 1" by (simp add: round_half_even_def f_def)
    then show ?thesis using fl 2 by simp
  next
    case 3
    then have "round_half_even x = f \<or> round_half_even x = f + 1"
      by (simp add: round_half_even_def f_def Let_def)
    then show ?thesis using fl 3 by auto
  qed
  then show "x - 1 / 2 \<le> of_int (round_half_even x)" "of_int (round_half_even x) \<le> x + 1 / 2"
    by simp_all
qed

lemma round_half_even_mono:
  assumes "x \<le> y"
  shows "round_half_even x \<le> round_half_even y"
proof (cases "\<lfloor>x\<rfloor> = \<lfloor>y\<rfloor>")
  case True
  then show ?thesis using assms by (auto simp: round_half_even_def Let_def)
next
  case False
  have "\<lfloor>x\<rfloor> \<le> \<lfloor>y\<rfloor>" using assms by (rule floor_mono)
  with False have "\<lfloor>x\<rfloor> + 1 \<le> \<lfloor>y\<rfloor>" by simp
  then show ?thesis
    using round_half_even_floor(2) [of x] round_half_even_floor(1) [of y] by linarith
qed

lemma round_half_even_strict:
  assumes "x + 1 < y"
  shows "round_half_even x < round_half_even y"
proof -
  have "(of_int (round_half_even x) :: real) \<le> x + 1 / 2" by (rule round_half_even_bounds)
  also have "\<dots> < y - 1 / 2" using assms by simp
  also have "\<dots> \<le> of_int (round_half_even y)" by (rule round_half_even_bounds)
  finally show ?thesis by simp
qed

lemma py_round_mono: "x \<le> y \<Longrightarrow> py_round x n \<le> py_round y n"
  by (simp add: py_round_def divide_le_cancel round_half_even_mono)

lemma py_round_strict:
  assumes "x + 1 / 10 ^ n < y"
  shows "py_round x n < py_round y n"
proof -
  have "(x + 1 / 10 ^ n) * 10 ^ n < y * 10 ^ n" using assms by simp
  then have "x * 10 ^ n + 1 < y * 10 ^ n" by (simp add: algebra_simps)
  then have "round_half_even (x * 10 ^ n) < round_half_even (y * 10 ^ n)"
    by (rule round_half_even_strict)
  then show ?thesis by (simp add: py_round_def divide_strict_right_mono)
qed

lemma round_half_even_of_int [simp]: "round_half_even (of_int k) = k"
  by (simp add: round_half_even_def)

lemma rows_attach_atr [simp]: "rows (attach_atr df) = rows df"
  by (simp add: attach_atr_def)

lemma len_attach_atr [simp]: "len (attach_atr df) = len df"
  by (simp add: len_def)

lemma closes_attach_atr [simp]: "closes (attach_atr df) = closes df"
  by (simp add: closes_def)

lemma highs_attach_atr [simp]: "highs (attach_atr df) = highs df"
  by (simp add: highs_def)

lemma lows_attach_atr [simp]: "lows (attach_atr df) = lows df"
  by (simp add: lows_def)

lemma column_ATR_attach_atr [simp]:
  "column_ATR (attach_atr df) = atr (highs df) (lows df) (closes df) 14"
  by (simp add: column_ATR_def attach_atr_def)

lemma length_cols [simp]:
  "length (highs df) = len df" "length (lows df) = len df" "length (closes df) = len df"
  by (simp_all add: highs_def lows_def closes_def len_def)




lemma iloc_last_ema_last:
  "0 < p \<Longrightarrow> p \<le> length xs \<Longrightarrow> iloc_last (ema xs p) = Inr (Some (ema_last xs p))"
  by (simp add: iloc_last_ema ema_last_def)

lemma determine_trend_short:
  "len data < 50 \<Longrightarrow> determine_trend data = Inr (''N/A'', data)"
  by (simp add: determine_trend_def)

lemma determine_trend_long:
  assumes "50 \<le> len data"
  shows "determine_trend data =
    Inr (if ema_last (closes data) 20 > ema_last (closes data) 50 then ''Up trend'' else ''Down trend'',
         data\<lparr>EMA20 := Some (ema (closes data) 20), EMA50 := Some (ema (closes data) 50)\<rparr>)"
proof -
  have "iloc_last (ema (closes data) 20) = Inr (Some (ema_last (closes data) 20))"
    using assms by (intro iloc_last_ema_last) simp_all
  moreover have "iloc_last (ema (closes data) 50) = Inr (Some (ema_last (closes data) 50))"
    using assms by (intro iloc_last_ema_last) simp_all
  ultimately show ?thesis
    using assms by (simp add: determine_trend_def Let_def try_bind_def f_gt_def closes_def)
qed

lemma f_ops_Some [simp]:
  "f_add (Some x) (Some y) = Some (x + y)"
  "f_sub (Some x) (Some y) = Some (x - y)"
  "f_mul (Some x) (Some y) = Some (x * y)"
  "f_gt (Some x) (Some y) \<longleftrightarrow> x > y"
  "f_lt (Some x) (Some y) \<longleftrightarrow> x < y"
  "f_round (Some x) n = Some (py_round x n)"
  by (simp_all add: f_add_def f_sub_def f_mul_def f_gt_def f_lt_def f_round_def)

lemma calculate_winrate_rows:
  "rows d = rows d' \<Longrightarrow> calculate_winrate d = calculate_winrate d'"
  by (simp add: calculate_winrate_def len_def closes_def)

lemma iloc_last_closes:
  "0 < len c \<Longrightarrow> iloc_last (map Some (closes c)) = Inr (Some (last (closes c)))"
  by (auto simp: iloc_last_def last_map closes_def len_def)










lemma result_fields [simp]:
  "signal (buy_result s w l x y) = ''BUY''" "signal (sell_result s w l x y) = ''SELL''"
  "trend (buy_result s w l x y) = ''Up trend''" "trend (sell_result s w l x y) = ''Down trend''"
  "winrate (buy_result s w l x y) = w" "winrate (sell_result s w l x y) = w"
  "symbol (buy_result s w l x y) = s" "symbol (sell_result s w l x y) = s"
  by (simp_all add: buy_result_def sell_result_def)

lemma analysis_body_value:
  assumes "50 \<le> len a" "15 \<le> len b" "0 < len c"
    and sl: "iloc_last (atr (highs b) (lows b) (closes b) 14) = Inr (Some atr_sl)"
    and tp: "iloc_last (atr (highs a) (lows a) (closes a) 14) = Inr (Some atr_tp)"
  shows "analysis_body s a b c =
    (let support = support_level a; resistance = resistance_level a;
         last_close = last (closes c); buffer = 0.005 * (resistance - support)
     in if last_close > resistance + buffer \<and> trend_label a = ''Up trend''
        then try_bind (calculate_winrate a) (\<lambda>wr.
          Inr (Some (buy_result s wr last_close atr_sl atr_tp)))
        else if last_close < support - buffer \<and> trend_label a = ''Down trend''
        then try_bind (calculate_winrate a) (\<lambda>wr.
          Inr (Some (sell_result s wr last_close atr_sl atr_tp)))
        else Inr None)"
proof -
  have sup: "iloc_last (rolling_min 50 (lows a)) = Inr (Some (support_level a))"
    using assms(1) by (simp add: rolling_min_def iloc_last_rolling support_level_def)
  have res: "iloc_last (rolling_max 50 (highs a)) = Inr (Some (resistance_level a))"
    using assms(1) by (simp add: rolling_max_def iloc_last_rolling resistance_level_def)
  have lc: "iloc_last (map Some (closes c)) = Inr (Some (last (closes c)))"
    using assms(3) by (rule iloc_last_closes)
  have tr: "determine_trend (attach_atr a) =
      Inr (trend_label a,
           (attach_atr a)\<lparr>EMA20 := Some (ema (closes a) 20), EMA50 := Some (ema (closes a) 50)\<rparr>)"
    using assms(1) by (simp add: determine_trend_long trend_label_def)
  have wr: "calculate_winrate
      ((attach_atr a)\<lparr>EMA20 := Some (ema (closes a) 20), EMA50 := Some (ema (closes a) 50)\<rparr>)
      = calculate_winrate a"
    by (rule calculate_winrate_rows) simp
  show ?thesis
    unfolding analysis_body_def Let_def
    by (simp add: sl tp sup res lc tr wr try_bind_def detect_def buy_result_def sell_result_def
        split: sum.split)
qed

lemma analyze_passed:
  assumes "100 \<le> len a" "50 \<le> len b" "10 \<le> len c"
  shows "analyze_volatility s (Some a) (Some b) (Some c) =
    (case analysis_body s a b c of
       Inl e \<Rightarrow> ([Error_analysis e], None) | Inr None \<Rightarrow> ([Info_no_signal], None) | Inr (Some r) \<Rightarrow> ([], Some r))"
  using assms by (simp add: analyze_volatility_def)

lemma analyze_Result_passed:
  assumes "snd (analyze_volatility s g15 g5 g1) = Some r"
  obtains a b c where "g15 = Some a" "g5 = Some b" "g1 = Some c"
    "100 \<le> len a" "50 \<le> len b" "10 \<le> len c" "analysis_body s a b c = Inr (Some r)"
  using assms
  by (auto simp: analyze_volatility_def split: option.splits if_splits sum.splits)

lemma atr_defined:
  assumes "15 \<le> len df"
  obtains v where "iloc_last (atr (highs df) (lows df) (closes df) 14) = Inr (Some v)" "0 \<le> v"
proof -
  have "\<exists>r. iloc_last (atr (highs df) (lows df) (closes df) 14) = Inr (Some r) \<and> 0 \<le> r"
    using assms by (intro last_atr_nonneg) simp_all
  then show ?thesis using that by blast
qed

lemma percent_not_NA: "s @ ''%'' \<noteq> ''N/A''"
proof
  assume "s @ ''%'' = ''N/A''"
  then have "last (s @ ''%'') = last ''N/A''" by simp
  then show False by simp
qed

lemma calculate_winrate_long:
  assumes "100 \<le> len data" "dropna (pct_change (closes data)) \<noteq> []"
  shows "calculate_winrate data =
    Inr (fmt_1f (real (length (filter positive (dropna (pct_change (closes data)))))
                 / real (length (dropna (pct_change (closes data)))) * 100) @ ''%'')"
  using assms by (simp add: calculate_winrate_def Let_def)

lemma calculate_winrate_cases:
  "calculate_winrate data = Inl e \<Longrightarrow> e = ZeroDivisionError"
  by (auto simp: calculate_winrate_def Let_def split: if_splits)

lemma calculate_winrate_not_NA:
  assumes "100 \<le> len data" "calculate_winrate data = Inr w"
  shows "w \<noteq> ''N/A''"
  using assms by (auto simp: calculate_winrate_def Let_def percent_not_NA split: if_splits)

lemma pct_from_all_nan:
  "dropna (pct_from x ys) = [] \<longleftrightarrow> (ys = [] \<or> (x = 0 \<and> (\<forall>y \<in> set ys. y = 0)))"
proof (induction ys arbitrary: x)
  case Nil
  then show ?case by (simp add: dropna_def)
next
  case (Cons y ys)
  have "dropna (pct_from x (y # ys)) = [] \<longleftrightarrow> pct x y = NaN \<and> dropna (pct_from y ys) = []"
    by (simp add: dropna_def)
  also have "pct x y = NaN \<longleftrightarrow> x = 0 \<and> y = 0" by (simp add: pct_def)
  finally show ?case using Cons.IH [of y] by auto
qed

lemma dropna_pct_change_empty:
  assumes "2 \<le> length xs"
  shows "dropna (pct_change xs) = [] \<longleftrightarrow> (\<forall>x \<in> set xs. x = 0)"
proof -
  from assms obtain x ys where xs: "xs = x # ys" "ys \<noteq> []" by (cases xs) fastforce+
  have "dropna (pct_change xs) = dropna (pct_from x ys)"
    by (simp add: xs pct_change_def dropna_def)
  then show ?thesis using xs pct_from_all_nan [of x ys] by auto
qed

lemma frame_simps [simp]:
  "rows (frame cs) = cs" "len (frame cs) = length cs"
  "highs (frame cs) = map high cs" "lows (frame cs) = map low cs" "closes (frame cs) = map close cs"
  by (simp_all add: frame_def len_def highs_def lows_def closes_def)

lemma bars_simps [simp]:
  "length (bars t0 n opn h l c) = n"
  "map high (bars t0 n opn h l c) = replicate n h"
  "map low (bars t0 n opn h l c) = replicate n l"
  "map close (bars t0 n opn h l c) = replicate n c"
  by (simp_all add: bars_def comp_def map_replicate_const)

lemma last_ema_from_replicate: "last (ema_from k v (replicate n v)) = v"
  by (induction n) simp_all

lemma last_ema_from_snoc:
  "last (ema_from k p (xs @ [x])) = last (ema_from k p xs) + k * (x - last (ema_from k p xs))"
  by (induction xs arbitrary: p) simp_all

lemma sum_list_replicate_real: "sum_list (replicate n (v::real)) = real n * v"
  by (induction n) (simp_all add: algebra_simps)

lemma ema_last_replicate:
  assumes "0 < p" "p \<le> n"
  shows "ema_last (replicate n v) p = v"
  using assms by (simp add: ema_last_def sum_list_replicate_real min_absorb2 last_ema_from_replicate)

lemma ema_last_replicate_snoc:
  assumes "0 < p" "p \<le> n"
  shows "ema_last (replicate n v @ [x]) p = v + 2 / (real p + 1) * (x - v)"
proof -
  have "take p (replicate n v @ [x]) = replicate p v" using assms by (simp add: min_absorb2)
  moreover have "drop p (replicate n v @ [x]) = replicate (n - p) v @ [x]" using assms by simp
  ultimately show ?thesis
    using assms
    by (simp add: ema_last_def sum_list_replicate_real last_ema_from_snoc last_ema_from_replicate
        del: take_append drop_append)
qed

lemma pct_from_replicate: "pct_from v (replicate n v) = replicate n (pct v v)"
  by (induction n) simp_all

lemma pct_from_append:
  "pct_from p (xs @ ys) = pct_from p xs @ pct_from (last (p # xs)) ys"
  by (induction xs arbitrary: p) simp_all

lemma pct_change_replicate:
  "pct_change (replicate (Suc n) v) = NaN # replicate n (pct v v)"
  by (simp add: pct_change_def pct_from_replicate)

lemma pct_change_replicate_snoc:
  "pct_change (replicate (Suc n) v @ [x]) = NaN # replicate n (pct v v) @ [pct v x]"
  by (simp add: pct_change_def pct_from_append pct_from_replicate)

lemma py_round_of_int: "py_round (of_int k) n = of_int k"
proof -
  have "(of_int k :: real) * 10 ^ n = of_int (k * 10 ^ n)" by simp
  then have "round_half_even (of_int k * 10 ^ n) = k * 10 ^ n"
    by (simp only: round_half_even_of_int)
  then show ?thesis by (simp add: py_round_def)
qed

lemma py_round_numeral [simp]:
  "py_round (numeral k) n = numeral k" "py_round 0 n = 0" "py_round (- numeral k) n = - numeral k"
  using py_round_of_int [of "numeral k" n] py_round_of_int [of 0 n]
    py_round_of_int [of "- numeral k" n]
  by simp_all

lemma atr_replicate:
  assumes "14 < n"
  shows "iloc_last (atr (replicate n h) (replicate n l) (replicate n c) 14) = Inr (Some (tr h l c))"
  using assms by (intro last_atr_const) simp_all

lemma show_nat_digit: "n < 10 \<Longrightarrow> show_nat n = [''0123456789'' ! n]"
  by (simp add: show_nat.simps)

lemma fmt_1f_0: "fmt_1f 0 = ''0.0''"
  using round_half_even_of_int [of 0] by (simp add: fmt_1f_def show_nat_digit)

lemma winrate_flat_15m: "calculate_winrate flat_15m = Inr ''0.0%''"
proof -
  have "pct_change (closes flat_15m) = NaN # replicate 99 (Fin 0)"
    using pct_change_replicate [of 99 100] by (simp add: flat_15m_def pct_def)
  then have "dropna (pct_change (closes flat_15m)) = replicate 99 (Fin 0)"
    by (simp add: dropna_def)
  then show ?thesis
    by (simp add: calculate_winrate_def flat_15m_def positive_def fmt_1f_0)
qed

lemma levels_flat_15m:
  "support_level flat_15m = 100" "resistance_level flat_15m = 100"
  "trend_label flat_15m = ''Down trend''"
  by (simp_all add: support_level_def resistance_level_def trend_label_def flat_15m_def
      ema_last_replicate)

lemma flat_run:
  "analyze_volatility ''X'' (Some flat_15m) (Some flat_5m) (Some below_1m) =
     ([], Some \<lparr>symbol = ''X'', signal = ''SELL'', winrate = ''0.0%'', trend = ''Down trend'',
             entry = Some 99, sl = Some 99, tp1 = Some 99, tp2 = Some 99\<rparr>)"
proof -
  have l: "100 \<le> len flat_15m" "50 \<le> len flat_5m" "10 \<le> len below_1m"
    by (simp_all add: flat_15m_def flat_5m_def below_1m_def)
  have sl: "iloc_last (atr (highs flat_5m) (lows flat_5m) (closes flat_5m) 14) = Inr (Some 0)"
    using atr_replicate [of 50 100 100 100] by (simp add: flat_5m_def tr_def)
  have tp: "iloc_last (atr (highs flat_15m) (lows flat_15m) (closes flat_15m) 14) = Inr (Some 0)"
    using atr_replicate [of 100 100 100 100] by (simp add: flat_15m_def tr_def)
  have lc: "last (closes below_1m) = 99" by (simp add: below_1m_def)
  have "analysis_body ''X'' flat_15m flat_5m below_1m =
      Inr (Some \<lparr>symbol = ''X'', signal = ''SELL'', winrate = ''0.0%'', trend = ''Down trend'',
             entry = Some 99, sl = Some 99, tp1 = Some 99, tp2 = Some 99\<rparr>)"
    using l by (subst analysis_body_value [OF _ _ _ sl tp])
      (simp_all add: levels_flat_15m lc winrate_flat_15m try_bind_def sell_result_def)
  then show ?thesis using l by (simp add: analyze_passed)
qed

lemma cols_rising_15m:
  "highs rising_15m = replicate 99 105 @ [110]"
  "lows rising_15m = replicate 99 95 @ [100]"
  "closes rising_15m = replicate 99 100 @ [110]"
  "len rising_15m = 100"
  by (simp_all add: rising_15m_def bars_def comp_def map_replicate_const)

lemma atr_rising_15m:
  "iloc_last (atr (highs rising_15m) (lows rising_15m) (closes rising_15m) 14) = Inr (Some 10)"
proof -
  have "tr ((replicate 99 105 @ [110]) ! Suc i) ((replicate 99 95 @ [100]) ! Suc i)
          ((replicate 99 100 @ [110]) ! i) = 10" if "Suc i < 100" for i :: nat
  proof (cases "Suc i < 99")
    case True
    then show ?thesis by (simp add: nth_append tr_def)
  next
    case False
    with that have "i = 98" by simp
    then show ?thesis by (simp add: nth_append tr_def)
  qed
  then show ?thesis
    unfolding cols_rising_15m by (intro last_atr_const) simp_all
qed

lemma levels_rising_15m:
  "support_level rising_15m = 95" "resistance_level rising_15m = 110"
  "trend_label rising_15m = ''Up trend''"
  by (simp_all add: support_level_def resistance_level_def trend_label_def cols_rising_15m
      ema_last_replicate_snoc)

lemma fmt_1f_rising: "fmt_1f (1 / 99 * 100) = ''1.0''"
proof -
  have "round_half_even (\<bar>1 / 99 * 100 :: real\<bar> * 10) = 10"
    by (simp add: round_half_even_def Let_def)
  then show ?thesis by (simp add: fmt_1f_def show_nat_digit)
qed

lemma winrate_rising_15m: "calculate_winrate rising_15m = Inr ''1.0%''"
proof -
  have "pct_change (closes rising_15m) = NaN # replicate 98 (Fin 0) @ [Fin (1 / 10)]"
    using pct_change_replicate_snoc [of 98 100 110] by (simp add: cols_rising_15m pct_def)
  then have "dropna (pct_change (closes rising_15m)) = replicate 98 (Fin 0) @ [Fin (1 / 10)]"
    by (simp add: dropna_def)
  then show ?thesis
    using fmt_1f_rising by (simp add: calculate_winrate_def cols_rising_15m positive_def)
qed

lemma rising_run:
  "analyze_volatility ''X'' (Some rising_15m) (Some ranging_5m) (Some above_1m) =
     ([], Some \<lparr>symbol = ''X'', signal = ''BUY'', winrate = ''1.0%'', trend = ''Up trend'',
             entry = Some 120, sl = Some 117, tp1 = Some 130, tp2 = Some 140\<rparr>)"
proof -
  have l: "100 \<le> len rising_15m" "50 \<le> len ranging_5m" "10 \<le> len above_1m"
    by (simp_all add: cols_rising_15m ranging_5m_def above_1m_def)
  have sl: "iloc_last (atr (highs ranging_5m) (lows ranging_5m) (closes ranging_5m) 14) = Inr (Some 1)"
    using atr_replicate [of 50 101 100 100] by (simp add: ranging_5m_def tr_def)
  have lc: "last (closes above_1m) = 120" by (simp add: above_1m_def)
  have "analysis_body ''X'' rising_15m ranging_5m above_1m =
      Inr (Some \<lparr>symbol = ''X'', signal = ''BUY'', winrate = ''1.0%'', trend = ''Up trend'',
             entry = Some 120, sl = Some 117, tp1 = Some 130, tp2 = Some 140\<rparr>)"
    using l by (subst analysis_body_value [OF _ _ _ sl atr_rising_15m])
      (simp_all add: levels_rising_15m lc winrate_rising_15m try_bind_def buy_result_def)
  then show ?thesis using l by (simp add: analyze_passed)
qed

lemma winrate_zero_15m: "calculate_winrate zero_15m = Inl ZeroDivisionError"
proof -
  have "dropna (pct_change (closes zero_15m)) = []"
    by (subst dropna_pct_change_empty) (simp_all add: zero_15m_def)
  then show ?thesis by (simp add: calculate_winrate_def zero_15m_def)
qed

lemma levels_zero_15m:
  "support_level zero_15m = 0" "resistance_level zero_15m = 0"
  "trend_label zero_15m = ''Down trend''"
  by (simp_all add: support_level_def resistance_level_def trend_label_def zero_15m_def
      ema_last_replicate)

lemma zero_run:
  "analyze_volatility ''X'' (Some zero_15m) (Some flat_5m) (Some negative_1m) =
     ([Error_analysis ZeroDivisionError], None)"
proof -
  have l: "100 \<le> len zero_15m" "50 \<le> len flat_5m" "10 \<le> len negative_1m"
    by (simp_all add: zero_15m_def flat_5m_def negative_1m_def)
  have sl: "iloc_last (atr (highs flat_5m) (lows flat_5m) (closes flat_5m) 14) = Inr (Some 0)"
    using atr_replicate [of 50 100 100 100] by (simp add: flat_5m_def tr_def)
  have tp: "iloc_last (atr (highs zero_15m) (lows zero_15m) (closes zero_15m) 14) = Inr (Some 0)"
    using atr_replicate [of 100 0 0 0] by (simp add: zero_15m_def tr_def)
  have lc: "last (closes negative_1m) = - 1" by (simp add: negative_1m_def)
  have "analysis_body ''X'' zero_15m flat_5m negative_1m = Inl ZeroDivisionError"
    using l by (subst analysis_body_value [OF _ _ _ sl tp])
      (simp_all add: levels_zero_15m lc winrate_zero_15m try_bind_def)
  then show ?thesis using l by (simp add: analyze_passed)
qed

lemma flat_signal:
  "snd (analyze_volatility ''X'' (Some flat_15m) (Some flat_5m) (Some below_1m)) =
     Some \<lparr>symbol = ''X'', signal = ''SELL'', winrate = ''0.0%'', trend = ''Down trend'',
           entry = Some 99, sl = Some 99, tp1 = Some 99, tp2 = Some 99\<rparr>"
  by (simp add: flat_run)

lemma rising_signal:
  "snd (analyze_volatility ''X'' (Some rising_15m) (Some ranging_5m) (Some above_1m)) =
     Some \<lparr>symbol = ''X'', signal = ''BUY'', winrate = ''1.0%'', trend = ''Up trend'',
           entry = Some 120, sl = Some 117, tp1 = Some 130, tp2 = Some 140\<rparr>"
  by (simp add: rising_run)

lemma all_zero_replicate:
  "(\<forall>x \<in> set xs. x = (0::real)) \<Longrightarrow> xs = replicate (length xs) 0"
  by (induction xs) simp_all

lemma trend_label_zero:
  assumes "50 \<le> len a" "\<forall>x \<in> set (closes a). x = 0"
  shows "trend_label a = ''Down trend''"
proof -
  have "closes a = replicate (len a) 0"
    using all_zero_replicate [OF assms(2)] by simp
  then show ?thesis using assms(1) by (simp add: trend_label_def ema_last_replicate)
qed

lemma calculate_winrate_result:
  assumes "100 \<le> len a"
  shows "(\<exists>w. calculate_winrate a = Inr w) \<longleftrightarrow> (\<exists>x \<in> set (closes a). x \<noteq> 0)"
    "calculate_winrate a = Inl e \<longleftrightarrow> e = ZeroDivisionError \<and> (\<forall>x \<in> set (closes a). x = 0)"
proof -
  have "2 \<le> length (closes a)" using assms by simp
  then have e: "dropna (pct_change (closes a)) = [] \<longleftrightarrow> (\<forall>x \<in> set (closes a). x = 0)"
    by (rule dropna_pct_change_empty)
  show "(\<exists>w. calculate_winrate a = Inr w) \<longleftrightarrow> (\<exists>x \<in> set (closes a). x \<noteq> 0)"
    using assms e by (auto simp: calculate_winrate_def Let_def)
  show "calculate_winrate a = Inl e \<longleftrightarrow> e = ZeroDivisionError \<and> (\<forall>x \<in> set (closes a). x = 0)"
    using assms e by (auto simp: calculate_winrate_def Let_def)
qed

text \<open>
  The decision of a run that has passed the three length checks, in terms of the
  quantities of the analysis.
\<close>

lemma signal_rule:
  fixes s :: string and a b c :: dataframe
  assumes l: "100 \<le> len a" "50 \<le> len b" "10 \<le> len c"
  defines "S \<equiv> support_level a" and "R \<equiv> resistance_level a" and "L \<equiv> last (closes c)"
  defines "B \<equiv> 0.005 * (R - S)"
  defines "out \<equiv> analyze_volatility s (Some a) (Some b) (Some c)"
  shows "(\<exists>r. snd out = Some r \<and> signal r = ''BUY'') \<longleftrightarrow> L > R + B \<and> trend_label a = ''Up trend''"
    and "(\<exists>r. snd out = Some r \<and> signal r = ''SELL'') \<longleftrightarrow>
          L < S - B \<and> trend_label a = ''Down trend'' \<and> (\<exists>x \<in> set (closes a). x \<noteq> 0)"
    and "out = ([Info_no_signal], None) \<longleftrightarrow>
          \<not> (L > R + B \<and> trend_label a = ''Up trend'') \<and>
          \<not> (L < S - B \<and> trend_label a = ''Down trend'')"
    and "out = ([Error_analysis e], None) \<longleftrightarrow>
          e = ZeroDivisionError \<and> L < S - B \<and> trend_label a = ''Down trend'' \<and>
          (\<forall>x \<in> set (closes a). x = 0)"
proof -
  obtain atr_sl where sl: "iloc_last (atr (highs b) (lows b) (closes b) 14) = Inr (Some atr_sl)"
    using l by (auto intro: atr_defined [of b])
  obtain atr_tp where tp: "iloc_last (atr (highs a) (lows a) (closes a) 14) = Inr (Some atr_tp)"
    using l by (auto intro: atr_defined [of a])
  have la: "50 \<le> len a" "15 \<le> len b" "0 < len c" using l by simp_all
  note body = analysis_body_value [OF la sl tp, of s, unfolded Let_def, folded S_def R_def L_def,
      folded B_def]
  have up: "\<exists>x \<in> set (closes a). x \<noteq> 0" if "trend_label a = ''Up trend''"
    using trend_label_zero [OF la(1)] that by auto
  have o: "out = (case analysis_body s a b c of
       Inl e \<Rightarrow> ([Error_analysis e], None) | Inr None \<Rightarrow> ([Info_no_signal], None) | Inr (Some r) \<Rightarrow> ([], Some r))"
    unfolding out_def using l by (rule analyze_passed)
  consider (w) w where "calculate_winrate a = Inr w" "\<exists>x \<in> set (closes a). x \<noteq> 0"
    | (z) "calculate_winrate a = Inl ZeroDivisionError" "\<forall>x \<in> set (closes a). x = 0"
    using calculate_winrate_result [OF l(1)] by (cases "calculate_winrate a") auto
  then show "(\<exists>r. snd out = Some r \<and> signal r = ''BUY'') \<longleftrightarrow> L > R + B \<and> trend_label a = ''Up trend''"
    and "(\<exists>r. snd out = Some r \<and> signal r = ''SELL'') \<longleftrightarrow>
          L < S - B \<and> trend_label a = ''Down trend'' \<and> (\<exists>x \<in> set (closes a). x \<noteq> 0)"
    and "out = ([Info_no_signal], None) \<longleftrightarrow>
          \<not> (L > R + B \<and> trend_label a = ''Up trend'') \<and>
          \<not> (L < S - B \<and> trend_label a = ''Down trend'')"
    and "out = ([Error_analysis e], None) \<longleftrightarrow>
          e = ZeroDivisionError \<and> L < S - B \<and> trend_label a = ''Down trend'' \<and>
          (\<forall>x \<in> set (closes a). x = 0)"
    using up by (cases; auto simp: o body try_bind_def)+
qed

lemma cols_falling_15m:
  "highs falling_15m = replicate 99 105 @ [100]"
  "lows falling_15m = replicate 99 95 @ [90]"
  "closes falling_15m = replicate 99 100 @ [90]"
  "len falling_15m = 100"
  by (simp_all add: falling_15m_def bars_def comp_def map_replicate_const)

lemma atr_falling_15m:
  "iloc_last (atr (highs falling_15m) (lows falling_15m) (closes falling_15m) 14) = Inr (Some 10)"
proof -
  have "tr ((replicate 99 105 @ [100]) ! Suc i) ((replicate 99 95 @ [90]) ! Suc i)
          ((replicate 99 100 @ [90]) ! i) = 10" if "Suc i < 100" for i :: nat
  proof (cases "Suc i < 99")
    case True
    then show ?thesis by (simp add: nth_append tr_def)
  next
    case False
    with that have "i = 98" by simp
    then show ?thesis by (simp add: nth_append tr_def)
  qed
  then show ?thesis
    unfolding cols_falling_15m by (intro last_atr_const) simp_all
qed

lemma atr_ranging_5m:
  "iloc_last (atr (highs ranging_5m) (lows ranging_5m) (closes ranging_5m) 14) = Inr (Some 1)"
  using atr_replicate [of 50 101 100 100] by (simp add: ranging_5m_def tr_def)

lemma atr_flat_5m:
  "iloc_last (atr (highs flat_5m) (lows flat_5m) (closes flat_5m) 14) = Inr (Some 0)"
  using atr_replicate [of 50 100 100 100] by (simp add: flat_5m_def tr_def)

lemma atr_flat_15m:
  "iloc_last (atr (highs flat_15m) (lows flat_15m) (closes flat_15m) 14) = Inr (Some 0)"
  using atr_replicate [of 100 100 100 100] by (simp add: flat_15m_def tr_def)

lemma levels_falling_15m:
  "support_level falling_15m = 90" "resistance_level falling_15m = 105"
  "trend_label falling_15m = ''Down trend''"
  by (simp_all add: support_level_def resistance_level_def trend_label_def cols_falling_15m
      ema_last_replicate_snoc)

lemma winrate_falling_15m: "calculate_winrate falling_15m = Inr ''0.0%''"
proof -
  have "pct_change (closes falling_15m) = NaN # replicate 98 (Fin 0) @ [Fin (- (1 / 10))]"
    using pct_change_replicate_snoc [of 98 100 90] by (simp add: cols_falling_15m pct_def)
  then have "dropna (pct_change (closes falling_15m)) = replicate 98 (Fin 0) @ [Fin (- (1 / 10))]"
    by (simp add: dropna_def)
  then show ?thesis
    by (simp add: calculate_winrate_def cols_falling_15m positive_def fmt_1f_0)
qed

lemma falling_run:
  "analyze_volatility ''X'' (Some falling_15m) (Some ranging_5m) (Some far_below_1m) =
     ([], Some \<lparr>symbol = ''X'', signal = ''SELL'', winrate = ''0.0%'', trend = ''Down trend'',
                 entry = Some 80, sl = Some 83, tp1 = Some 70, tp2 = Some 60\<rparr>)"
proof -
  have l: "100 \<le> len falling_15m" "50 \<le> len ranging_5m" "10 \<le> len far_below_1m"
    by (simp_all add: cols_falling_15m ranging_5m_def far_below_1m_def)
  have lc: "last (closes far_below_1m) = 80" by (simp add: far_below_1m_def)
  have "analysis_body ''X'' falling_15m ranging_5m far_below_1m =
      Inr (Some \<lparr>symbol = ''X'', signal = ''SELL'', winrate = ''0.0%'', trend = ''Down trend'',
                 entry = Some 80, sl = Some 83, tp1 = Some 70, tp2 = Some 60\<rparr>)"
    using l by (subst analysis_body_value [OF _ _ _ atr_ranging_5m atr_falling_15m])
      (simp_all add: levels_falling_15m lc winrate_falling_15m try_bind_def sell_result_def)
  then show ?thesis using l by (simp add: analyze_passed)
qed

lemma falling_signal:
  "snd (analyze_volatility ''X'' (Some falling_15m) (Some ranging_5m) (Some far_below_1m)) =
     Some \<lparr>symbol = ''X'', signal = ''SELL'', winrate = ''0.0%'', trend = ''Down trend'',
           entry = Some 80, sl = Some 83, tp1 = Some 70, tp2 = Some 60\<rparr>"
  by (simp add: falling_run)

lemma inside_run:
  "analyze_volatility ''X'' (Some flat_15m) (Some flat_5m) (Some inside_1m) =
     ([Info_no_signal], None)"
proof -
  have l: "100 \<le> len flat_15m" "50 \<le> len flat_5m" "10 \<le> len inside_1m"
    by (simp_all add: flat_15m_def flat_5m_def inside_1m_def)
  have lc: "last (closes inside_1m) = 100" by (simp add: inside_1m_def)
  have "analysis_body ''X'' flat_15m flat_5m inside_1m = Inr None"
    using l by (subst analysis_body_value [OF _ _ _ atr_flat_5m atr_flat_15m])
      (simp_all add: levels_flat_15m lc)
  then show ?thesis using l by (simp add: analyze_passed)
qed

lemma analysis_body_Result:
  assumes l: "100 \<le> len a" "50 \<le> len b" "10 \<le> len c"
    and r: "analysis_body s a b c = Inr (Some r)"
  obtains atr_sl atr_tp w where
    "iloc_last (atr (highs b) (lows b) (closes b) 14) = Inr (Some atr_sl)" "0 \<le> atr_sl"
    "iloc_last (atr (highs a) (lows a) (closes a) 14) = Inr (Some atr_tp)" "0 \<le> atr_tp"
    "calculate_winrate a = Inr w"
    "r = buy_result s w (last (closes c)) atr_sl atr_tp \<and> trend_label a = ''Up trend'' \<or>
     r = sell_result s w (last (closes c)) atr_sl atr_tp \<and> trend_label a = ''Down trend''"
proof -
  obtain atr_sl where sl: "iloc_last (atr (highs b) (lows b) (closes b) 14) = Inr (Some atr_sl)"
      "0 \<le> atr_sl"
    using l by (auto intro: atr_defined [of b])
  obtain atr_tp where tp: "iloc_last (atr (highs a) (lows a) (closes a) 14) = Inr (Some atr_tp)"
      "0 \<le> atr_tp"
    using l by (auto intro: atr_defined [of a])
  have la: "50 \<le> len a" "15 \<le> len b" "0 < len c" using l by simp_all
  note body = analysis_body_value [OF la sl(1) tp(1), of s, unfolded Let_def]
  show ?thesis
  proof (cases "calculate_winrate a")
    case (Inl e)
    with r body show ?thesis by (auto simp: try_bind_def split: if_splits)
  next
    case (Inr w)
    with r body
    have "r = buy_result s w (last (closes c)) atr_sl atr_tp \<and> trend_label a = ''Up trend'' \<or>
      r = sell_result s w (last (closes c)) atr_sl atr_tp \<and> trend_label a = ''Down trend''"
      by (auto simp: try_bind_def split: if_splits)
    with sl tp Inr that show ?thesis by blast
  qed
qed

lemma round_order_weak:
  assumes "0 \<le> x" "0 \<le> y"
  shows "py_round (L - x * 3) 5 \<le> py_round L 5" "py_round L 5 \<le> py_round (L + x * 3) 5"
    "py_round L 5 \<le> py_round (L + y * 1) 5" "py_round (L + y * 1) 5 \<le> py_round (L + y * 2) 5"
    "py_round (L - y * 1) 5 \<le> py_round L 5" "py_round (L - y * 2) 5 \<le> py_round (L - y * 1) 5"
proof -
  show "py_round (L - x * 3) 5 \<le> py_round L 5" using assms by (intro py_round_mono) simp
  show "py_round L 5 \<le> py_round (L + x * 3) 5" using assms by (intro py_round_mono) simp
  show "py_round L 5 \<le> py_round (L + y * 1) 5" using assms by (intro py_round_mono) simp
  show "py_round (L + y * 1) 5 \<le> py_round (L + y * 2) 5" using assms by (intro py_round_mono) simp
  show "py_round (L - y * 1) 5 \<le> py_round L 5" using assms by (intro py_round_mono) simp
  show "py_round (L - y * 2) 5 \<le> py_round (L - y * 1) 5" using assms by (intro py_round_mono) simp
qed

lemma round_order_stop:
  assumes "1 / 10 ^ 5 < 3 * (x::real)"
  shows "py_round (L - x * 3) 5 < py_round L 5" "py_round L 5 < py_round (L + x * 3) 5"
proof -
  show "py_round (L - x * 3) 5 < py_round L 5" using assms by (intro py_round_strict) linarith
  show "py_round L 5 < py_round (L + x * 3) 5" using assms by (intro py_round_strict) linarith
qed

lemma round_order_targets:
  assumes "1 / 10 ^ 5 < (y::real)"
  shows "py_round L 5 < py_round (L + y * 1) 5"
    "py_round (L + y * 1) 5 < py_round (L + y * 2) 5"
    "py_round (L - y * 1) 5 < py_round L 5" "py_round (L - y * 2) 5 < py_round (L - y * 1) 5"
proof -
  show "py_round L 5 < py_round (L + y * 1) 5" using assms by (intro py_round_strict) linarith
  show "py_round (L + y * 1) 5 < py_round (L + y * 2) 5"
    using assms by (intro py_round_strict) linarith
  show "py_round (L - y * 1) 5 < py_round L 5" using assms by (intro py_round_strict) linarith
  show "py_round (L - y * 2) 5 < py_round (L - y * 1) 5"
    using assms by (intro py_round_strict) linarith
qed

lemma nth_rolling:
  assumes "i < length xs"
  shows "rolling agg w xs ! i =
    (if i + 1 < w then None else Some (agg (set (take w (drop (i + 1 - w) xs)))))"
  using assms by (simp add: rolling_def)

lemma closes_seven_closes: "closes seven_closes = [10, 11, 10, 12, 13, 12, 14]"
  by (simp add: seven_closes_def closing_def)

lemma changes_seven_closes:
  "dropna (pct_change [10, 11, 10, 12, 13, 12, 14]) =
     [Fin (1 / 10), Fin (- (1 / 11)), Fin (1 / 5), Fin (1 / 12), Fin (- (1 / 13)), Fin (1 / 6)]"
  by (simp add: pct_change_def pct_def dropna_def)

lemma fmt_1f_two_thirds: "fmt_1f (4 / 6 * 100) = ''66.7''"
proof -
  have "round_half_even (\<bar>4 / 6 * 100 :: real\<bar> * 10) = 667"
    by (simp add: round_half_even_def Let_def)
  then show ?thesis by (simp add: fmt_1f_def show_nat.simps)
qed

lemma pct_from_no_zero:
  assumes "x \<noteq> 0" "\<forall>y \<in> set ys. y \<noteq> 0"
  shows "dropna (pct_from x ys) = pct_from x ys"
  using assms by (induction ys arbitrary: x) (simp_all add: dropna_def pct_def)

lemma length_pct_from [simp]: "length (pct_from x ys) = length ys"
  by (induction ys arbitrary: x) simp_all

lemma length_changes_no_zero:
  assumes "\<forall>x \<in> set xs. x \<noteq> 0"
  shows "length (dropna (pct_change xs)) = length xs - 1"
proof (cases xs)
  case Nil
  then show ?thesis by (simp add: pct_change_def dropna_def)
next
  case (Cons x ys)
  then have "dropna (pct_change xs) = dropna (pct_from x ys)"
    by (simp add: pct_change_def dropna_def)
  also have "\<dots> = pct_from x ys" using assms Cons by (intro pct_from_no_zero) simp_all
  finally show ?thesis using Cons by simp
qed

lemma analysis_body_rows:
  assumes "rows a = rows a'" "rows b = rows b'" "rows c = rows c'"
  shows "analysis_body s a b c = analysis_body s a' b' c'"
proof -
  have cols: "highs a = highs a'" "lows a = lows a'" "closes a = closes a'" "len a = len a'"
    "highs b = highs b'" "lows b = lows b'" "closes b = closes b'" "closes c = closes c'"
    using assms by (simp_all add: highs_def lows_def closes_def len_def)
  obtain l d d' where t: "determine_trend (attach_atr a) = Inr (l, d)"
    "determine_trend (attach_atr a') = Inr (l, d')" "rows d = rows a" "rows d' = rows a'"
  proof (cases "len a < 50")
    case True
    then show ?thesis
      using that [of "''N/A''" "attach_atr a" "attach_atr a'"] cols
      by (simp add: determine_trend_short)
  next
    case False
    then have l: "50 \<le> len (attach_atr a)" "50 \<le> len (attach_atr a')" using cols by simp_all
    show ?thesis
      using that [OF determine_trend_long [OF l(1)] _ ] determine_trend_long [OF l(2)] cols
      by simp
  qed
  have wr: "calculate_winrate d = calculate_winrate d'"
    using t assms(1) by (intro calculate_winrate_rows) simp
  show ?thesis
    using t wr
    by (simp add: analysis_body_def Let_def cols try_bind_def split: sum.split option.split)
qed

lemma gate_results:
  "analyze_volatility s None g5 g1 = ([Error_insufficient ''15m''], None)"
  "len a < 100 \<Longrightarrow> analyze_volatility s (Some a) g5 g1 = ([Error_insufficient ''15m''], None)"
  "\<not> len a < 100 \<Longrightarrow> analyze_volatility s (Some a) None g1 = ([Error_insufficient ''5m''], None)"
  "\<not> len a < 100 \<Longrightarrow> len b < 50 \<Longrightarrow>
     analyze_volatility s (Some a) (Some b) g1 = ([Error_insufficient ''5m''], None)"
  "\<not> len a < 100 \<Longrightarrow> \<not> len b < 50 \<Longrightarrow>
     analyze_volatility s (Some a) (Some b) None = ([Error_insufficient ''1m''], None)"
  "\<not> len a < 100 \<Longrightarrow> \<not> len b < 50 \<Longrightarrow> len c < 10 \<Longrightarrow>
     analyze_volatility s (Some a) (Some b) (Some c) = ([Error_insufficient ''1m''], None)"
  by (simp_all add: analyze_volatility_def)

lemma same_rows:
  assumes "map_option rows g = map_option rows g'"
  shows "(g = None \<and> g' = None) \<or>
    (\<exists>d d'. g = Some d \<and> g' = Some d' \<and> rows d = rows d' \<and> len d = len d')"
  using assms by (cases g; cases g') (simp_all add: len_def)

section \<open>The claims\<close>

text \<open>
  Claim C5. On a frame with fewer than 50 candles \<^verbatim>\<open>determine_trend\<close> returns the label
  \<^verbatim>\<open>N/A\<close>, as a value and not as an exception. On a frame with at least 50 candles the
  latest values of EMA(close, 20) and EMA(close, 50) are both defined, and the label is
  \<^verbatim>\<open>Up trend\<close> exactly when the first is strictly greater than the second, and
  \<^verbatim>\<open>Down trend\<close> otherwise.
\<close>

theorem trend_classifier:
  "(len data < 50 \<longrightarrow> map_sum id fst (determine_trend data) = Inr ''N/A'') \<and>
   (50 \<le> len data \<longrightarrow>
      (\<exists>e20 e50.
         iloc_last (ema (closes data) 20) = Inr (Some e20) \<and>
         iloc_last (ema (closes data) 50) = Inr (Some e50) \<and>
         map_sum id fst (determine_trend data) =
           Inr (if e20 > e50 then ''Up trend'' else ''Down trend'') \<and>
         (map_sum id fst (determine_trend data) = Inr ''Up trend'' \<longleftrightarrow> e20 > e50)))"
proof (intro conjI impI)
  assume "len data < 50"
  then show "map_sum id fst (determine_trend data) = Inr ''N/A''"
    by (simp add: determine_trend_short)
next
  assume l: "50 \<le> len data"
  have "iloc_last (ema (closes data) 20) = Inr (Some (ema_last (closes data) 20))"
    using l by (intro iloc_last_ema_last) simp_all
  moreover have "iloc_last (ema (closes data) 50) = Inr (Some (ema_last (closes data) 50))"
    using l by (intro iloc_last_ema_last) simp_all
  moreover have "map_sum id fst (determine_trend data) =
      Inr (if ema_last (closes data) 20 > ema_last (closes data) 50
           then ''Up trend'' else ''Down trend'')"
    using l by (simp add: determine_trend_long)
  ultimately show "\<exists>e20 e50.
         iloc_last (ema (closes data) 20) = Inr (Some e20) \<and>
         iloc_last (ema (closes data) 50) = Inr (Some e50) \<and>
         map_sum id fst (determine_trend data) =
           Inr (if e20 > e50 then ''Up trend'' else ''Down trend'') \<and>
         (map_sum id fst (determine_trend data) = Inr ''Up trend'' \<longleftrightarrow> e20 > e50)"
    by (intro exI [of _ "ema_last (closes data) 20"] exI [of _ "ema_last (closes data) 50"]) simp
qed

theorem trend_classifier_witness:
  "map_sum id fst (determine_trend (frame (bars 0 49 1 1 1 1))) = Inr ''N/A'' \<and>
   map_sum id fst (determine_trend flat_15m) = Inr ''Down trend'' \<and>
   map_sum id fst (determine_trend rising_15m) = Inr ''Up trend''"
proof -
  have "len (frame (bars 0 49 1 1 1 1)) < 50" by simp
  then have a: "map_sum id fst (determine_trend (frame (bars 0 49 1 1 1 1))) = Inr ''N/A''"
    using trend_classifier [of "frame (bars 0 49 1 1 1 1)"] by blast
  have e: "iloc_last (ema (closes df) p) = Inr (Some (ema_last (closes df) p))"
    if "0 < p" "p \<le> len df" for df p
    using that by (intro iloc_last_ema_last) simp_all
  have "50 \<le> len flat_15m" by (simp add: flat_15m_def)
  then have b: "map_sum id fst (determine_trend flat_15m) = Inr ''Down trend''"
    using trend_classifier [of flat_15m] e [of 20 flat_15m] e [of 50 flat_15m]
    by (auto simp: flat_15m_def ema_last_replicate)
  have "50 \<le> len rising_15m" by (simp add: cols_rising_15m)
  then have c: "map_sum id fst (determine_trend rising_15m) = Inr ''Up trend''"
    using trend_classifier [of rising_15m] e [of 20 rising_15m] e [of 50 rising_15m]
    by (auto simp: cols_rising_15m ema_last_replicate_snoc)
  from a b c show ?thesis by simp
qed

text \<open>
  Claim C10. A signal that is produced carries a trend label that is not \<^verbatim>\<open>N/A\<close> and
  that agrees with its direction (\<^verbatim>\<open>Up trend\<close> for BUY, \<^verbatim>\<open>Down trend\<close> for SELL), and a
  win-rate that is not \<^verbatim>\<open>N/A\<close>: the trend series has passed the check for 100 candles,
  the label is the one \<^verbatim>\<open>determine_trend\<close> returns for it and the win-rate the one
  \<^verbatim>\<open>calculate_winrate\<close> returns for it.
\<close>

theorem labels_of_signal:
  assumes "snd (analyze_volatility s got_15m got_5m got_1m) = Some r"
  shows "trend r \<noteq> ''N/A'' \<and> winrate r \<noteq> ''N/A'' \<and>
    (signal r = ''BUY'' \<or> signal r = ''SELL'') \<and>
    (signal r = ''BUY'' \<longrightarrow> trend r = ''Up trend'') \<and>
    (signal r = ''SELL'' \<longrightarrow> trend r = ''Down trend'') \<and>
    (\<exists>df_15m. got_15m = Some df_15m \<and> 100 \<le> len df_15m \<and>
       map_sum id fst (determine_trend df_15m) = Inr (trend r) \<and>
       calculate_winrate df_15m = Inr (winrate r))"
proof -
  from assms obtain a b c where g: "got_15m = Some a" "got_5m = Some b" "got_1m = Some c"
    and l: "100 \<le> len a" "50 \<le> len b" "10 \<le> len c"
    and body: "analysis_body s a b c = Inr (Some r)"
    by (rule analyze_Result_passed)
  from l body obtain atr_sl atr_tp w where w: "calculate_winrate a = Inr w"
    and r: "r = buy_result s w (last (closes c)) atr_sl atr_tp \<and> trend_label a = ''Up trend'' \<or>
      r = sell_result s w (last (closes c)) atr_sl atr_tp \<and> trend_label a = ''Down trend''"
    by (rule analysis_body_Result)
  have na: "w \<noteq> ''N/A''" using l(1) w by (rule calculate_winrate_not_NA)
  have tr: "map_sum id fst (determine_trend a) = Inr (trend_label a)"
    using l(1) by (simp add: determine_trend_long trend_label_def)
  from r show ?thesis
  proof
    assume "r = buy_result s w (last (closes c)) atr_sl atr_tp \<and> trend_label a = ''Up trend''"
    then show ?thesis using na tr w g l by simp
  next
    assume "r = sell_result s w (last (closes c)) atr_sl atr_tp \<and> trend_label a = ''Down trend''"
    then show ?thesis using na tr w g l by simp
  qed
qed

theorem labels_of_signal_witness:
  "trend (buy_result ''X'' ''1.0%'' 120 1 10) = ''Up trend'' \<and>
   winrate (buy_result ''X'' ''1.0%'' 120 1 10) \<noteq> ''N/A'' \<and>
   trend (sell_result ''X'' ''0.0%'' 99 0 0) = ''Down trend'' \<and>
   winrate (sell_result ''X'' ''0.0%'' 99 0 0) \<noteq> ''N/A'' \<and>
   analyze_volatility ''X'' (Some rising_15m) (Some ranging_5m) (Some above_1m)
     = ([], Some (buy_result ''X'' ''1.0%'' 120 1 10)) \<and>
   analyze_volatility ''X'' (Some flat_15m) (Some flat_5m) (Some below_1m)
     = ([], Some (sell_result ''X'' ''0.0%'' 99 0 0))"
proof -
  have b: "analyze_volatility ''X'' (Some rising_15m) (Some ranging_5m) (Some above_1m)
      = ([], Some (buy_result ''X'' ''1.0%'' 120 1 10))"
    by (simp add: rising_run buy_result_def)
  have s: "analyze_volatility ''X'' (Some flat_15m) (Some flat_5m) (Some below_1m)
      = ([], Some (sell_result ''X'' ''0.0%'' 99 0 0))"
    by (simp add: flat_run sell_result_def)
  have b': "snd (analyze_volatility ''X'' (Some rising_15m) (Some ranging_5m) (Some above_1m))
      = Some (buy_result ''X'' ''1.0%'' 120 1 10)"
    by (simp add: b)
  have s': "snd (analyze_volatility ''X'' (Some flat_15m) (Some flat_5m) (Some below_1m))
      = Some (sell_result ''X'' ''0.0%'' 99 0 0)"
    by (simp add: s)
  show ?thesis
    using labels_of_signal [OF b'] labels_of_signal [OF s'] b s by simp
qed

text \<open>
  Claim C2. For a signal that is produced, let \<open>atrRisk\<close> be the latest ATR(14) of the risk
  (5m) series, \<open>atrTarget\<close> the latest ATR(14) of the trend (15m) series and \<open>lastClose\<close>
  the latest close of the entry (1m) series; all three are defined. The four price fields
  are the values rounded to 5 fractional digits of: \<open>lastClose\<close> for the entry; for BUY
  \<open>lastClose - 3 * atrRisk\<close> for the stop, \<open>lastClose + atrTarget\<close> and
  \<open>lastClose + 2 * atrTarget\<close> for the two targets; for SELL the same with the signs
  mirrored.
\<close>

theorem risk_levels_of_signal:
  assumes "snd (analyze_volatility s got_15m got_5m got_1m) = Some r"
  shows "\<exists>df_15m df_5m df_1m atrRisk atrTarget lastClose.
    got_15m = Some df_15m \<and> got_5m = Some df_5m \<and> got_1m = Some df_1m \<and>
    iloc_last (atr (highs df_5m) (lows df_5m) (closes df_5m) 14) = Inr (Some atrRisk) \<and>
    iloc_last (atr (highs df_15m) (lows df_15m) (closes df_15m) 14) = Inr (Some atrTarget) \<and>
    iloc_last (map Some (closes df_1m)) = Inr (Some lastClose) \<and>
    (signal r = ''BUY'' \<or> signal r = ''SELL'') \<and>
    entry r = Some (py_round lastClose 5) \<and>
    (signal r = ''BUY'' \<longrightarrow>
       sl r = Some (py_round (lastClose - 3 * atrRisk) 5) \<and>
       tp1 r = Some (py_round (lastClose + atrTarget) 5) \<and>
       tp2 r = Some (py_round (lastClose + 2 * atrTarget) 5)) \<and>
    (signal r = ''SELL'' \<longrightarrow>
       sl r = Some (py_round (lastClose + 3 * atrRisk) 5) \<and>
       tp1 r = Some (py_round (lastClose - atrTarget) 5) \<and>
       tp2 r = Some (py_round (lastClose - 2 * atrTarget) 5))"
proof -
  from assms obtain a b c where g: "got_15m = Some a" "got_5m = Some b" "got_1m = Some c"
    and l: "100 \<le> len a" "50 \<le> len b" "10 \<le> len c"
    and body: "analysis_body s a b c = Inr (Some r)"
    by (rule analyze_Result_passed)
  from l body obtain atr_sl atr_tp w
    where sl: "iloc_last (atr (highs b) (lows b) (closes b) 14) = Inr (Some atr_sl)"
    and tp: "iloc_last (atr (highs a) (lows a) (closes a) 14) = Inr (Some atr_tp)"
    and r: "r = buy_result s w (last (closes c)) atr_sl atr_tp \<and> trend_label a = ''Up trend'' \<or>
      r = sell_result s w (last (closes c)) atr_sl atr_tp \<and> trend_label a = ''Down trend''"
    by (rule analysis_body_Result)
  have lc: "iloc_last (map Some (closes c)) = Inr (Some (last (closes c)))"
    using l(3) by (intro iloc_last_closes) simp
  have "(signal r = ''BUY'' \<or> signal r = ''SELL'') \<and>
    entry r = Some (py_round (last (closes c)) 5) \<and>
    (signal r = ''BUY'' \<longrightarrow>
       sl r = Some (py_round (last (closes c) - 3 * atr_sl) 5) \<and>
       tp1 r = Some (py_round (last (closes c) + atr_tp) 5) \<and>
       tp2 r = Some (py_round (last (closes c) + 2 * atr_tp) 5)) \<and>
    (signal r = ''SELL'' \<longrightarrow>
       sl r = Some (py_round (last (closes c) + 3 * atr_sl) 5) \<and>
       tp1 r = Some (py_round (last (closes c) - atr_tp) 5) \<and>
       tp2 r = Some (py_round (last (closes c) - 2 * atr_tp) 5))"
    using r by (auto simp: buy_result_def sell_result_def mult.commute)
  with g sl tp lc show ?thesis by blast
qed

theorem risk_levels_of_signal_witness:
  "analyze_volatility ''X'' (Some rising_15m) (Some ranging_5m) (Some above_1m) =
     ([], Some \<lparr>symbol = ''X'', signal = ''BUY'', winrate = ''1.0%'', trend = ''Up trend'',
             entry = Some (py_round 120 5), sl = Some (py_round (120 - 3 * 1) 5),
             tp1 = Some (py_round (120 + 10) 5), tp2 = Some (py_round (120 + 2 * 10) 5)\<rparr>) \<and>
   analyze_volatility ''X'' (Some flat_15m) (Some flat_5m) (Some below_1m) =
     ([], Some \<lparr>symbol = ''X'', signal = ''SELL'', winrate = ''0.0%'', trend = ''Down trend'',
             entry = Some (py_round 99 5), sl = Some (py_round (99 + 3 * 0) 5),
             tp1 = Some (py_round (99 - 0) 5), tp2 = Some (py_round (99 - 2 * 0) 5)\<rparr>) \<and>
   analyze_volatility ''X'' (Some falling_15m) (Some ranging_5m) (Some far_below_1m) =
     ([], Some \<lparr>symbol = ''X'', signal = ''SELL'', winrate = ''0.0%'', trend = ''Down trend'',
             entry = Some (py_round 80 5), sl = Some (py_round (80 + 3 * 1) 5),
             tp1 = Some (py_round (80 - 10) 5), tp2 = Some (py_round (80 - 2 * 10) 5)\<rparr>)"
proof -
  have sl5: "iloc_last (atr (highs ranging_5m) (lows ranging_5m) (closes ranging_5m) 14)
      = Inr (Some 1)"
    using atr_replicate [of 50 101 100 100] by (simp add: ranging_5m_def tr_def)
  have sl0: "iloc_last (atr (highs flat_5m) (lows flat_5m) (closes flat_5m) 14) = Inr (Some 0)"
    using atr_replicate [of 50 100 100 100] by (simp add: flat_5m_def tr_def)
  have tp0: "iloc_last (atr (highs flat_15m) (lows flat_15m) (closes flat_15m) 14) = Inr (Some 0)"
    using atr_replicate [of 100 100 100 100] by (simp add: flat_15m_def tr_def)
  have lc: "iloc_last (map Some (closes above_1m)) = Inr (Some 120)"
      "iloc_last (map Some (closes below_1m)) = Inr (Some 99)"
    by (simp_all add: above_1m_def below_1m_def iloc_last_def)
  have lc': "iloc_last (map Some (closes far_below_1m)) = Inr (Some 80)"
    by (simp add: far_below_1m_def iloc_last_def)
  show ?thesis
    using risk_levels_of_signal [OF rising_signal] risk_levels_of_signal [OF flat_signal]
      risk_levels_of_signal [OF falling_signal] sl5 sl0 tp0 lc lc' atr_rising_15m atr_falling_15m
    by (simp add: rising_run flat_run falling_run)
qed

text \<open>
  Claim C7, as stated: an insufficient series gives a typed no-analysis result, and a
  trend series of exactly 100 candles is analyzable when the other two series meet their
  minimums. The code returns the same bare \<^verbatim>\<open>None\<close> after a failed length check (99 trend
  candles), when there is no signal, and from its exception handler; and a run with
  exactly 100, 50 and 10 candles can end in that handler.
\<close>

theorem insufficient_data_is_plain_None:
  "snd (analyze_volatility ''X'' (Some (frame (bars 0 99 100 100 100 100))) (Some flat_5m)
         (Some below_1m)) = None \<and>
   snd (analyze_volatility ''X'' (Some flat_15m) (Some flat_5m) (Some inside_1m)) = None \<and>
   snd (analyze_volatility ''X'' (Some zero_15m) (Some flat_5m) (Some negative_1m)) = None \<and>
   len zero_15m = 100 \<and> len flat_5m = 50 \<and> len negative_1m = 10 \<and>
   analyze_volatility ''X'' (Some zero_15m) (Some flat_5m) (Some negative_1m) =
     ([Error_analysis ZeroDivisionError], None)"
  by (simp add: inside_run zero_run)
    (simp add: analyze_volatility_def zero_15m_def flat_5m_def negative_1m_def)

text \<open>
  Claim C7, amended. The three series are checked in the order 15m, 5m, 1m. The first one
  that is missing or has fewer than 100, 50 and 10 candles (so a trend series of exactly 99
  candles) makes the call log the error \<^verbatim>\<open>Insufficient <timeframe> data\<close> and return
  \<^verbatim>\<open>None\<close>; no exception is raised and the handler is not entered. With at least 100, 50
  and 10 candles (so with exactly 100 trend candles) no length check fires, and the call
  either returns a signal and logs nothing, or logs \<^verbatim>\<open>No signal\<close> and returns
  \<^verbatim>\<open>None\<close>, or logs \<^verbatim>\<open>Analysis Error\<close> for a division by zero and returns
  \<^verbatim>\<open>None\<close>. The value \<^verbatim>\<open>None\<close> is the same on all these paths; only the logged line
  tells them apart.
\<close>

theorem length_gates:
  "(len df_15m = 99 \<longrightarrow>
      analyze_volatility s (Some df_15m) got_5m got_1m = ([Error_insufficient ''15m''], None)) \<and>
   (len df_15m < 100 \<longrightarrow>
      analyze_volatility s (Some df_15m) got_5m got_1m = ([Error_insufficient ''15m''], None)) \<and>
   analyze_volatility s None got_5m got_1m = ([Error_insufficient ''15m''], None) \<and>
   (100 \<le> len df_15m \<and> len df_5m < 50 \<longrightarrow>
      analyze_volatility s (Some df_15m) (Some df_5m) got_1m = ([Error_insufficient ''5m''], None)) \<and>
   (100 \<le> len df_15m \<longrightarrow>
      analyze_volatility s (Some df_15m) None got_1m = ([Error_insufficient ''5m''], None)) \<and>
   (100 \<le> len df_15m \<and> 50 \<le> len df_5m \<and> len df_1m < 10 \<longrightarrow>
      analyze_volatility s (Some df_15m) (Some df_5m) (Some df_1m)
        = ([Error_insufficient ''1m''], None)) \<and>
   (100 \<le> len df_15m \<and> 50 \<le> len df_5m \<longrightarrow>
      analyze_volatility s (Some df_15m) (Some df_5m) None = ([Error_insufficient ''1m''], None)) \<and>
   (100 \<le> len df_15m \<and> 50 \<le> len df_5m \<and> 10 \<le> len df_1m \<longrightarrow>
      (\<exists>r. analyze_volatility s (Some df_15m) (Some df_5m) (Some df_1m) = ([], Some r)) \<or>
      analyze_volatility s (Some df_15m) (Some df_5m) (Some df_1m) = ([Info_no_signal], None) \<or>
      analyze_volatility s (Some df_15m) (Some df_5m) (Some df_1m)
        = ([Error_analysis ZeroDivisionError], None))"
proof -
  have "(\<exists>r. analyze_volatility s (Some df_15m) (Some df_5m) (Some df_1m) = ([], Some r)) \<or>
      analyze_volatility s (Some df_15m) (Some df_5m) (Some df_1m) = ([Info_no_signal], None) \<or>
      analyze_volatility s (Some df_15m) (Some df_5m) (Some df_1m)
        = ([Error_analysis ZeroDivisionError], None)"
    if l: "100 \<le> len df_15m" "50 \<le> len df_5m" "10 \<le> len df_1m"
  proof (cases "analysis_body s df_15m df_5m df_1m")
    case (Inl e)
    then have o: "analyze_volatility s (Some df_15m) (Some df_5m) (Some df_1m)
        = ([Error_analysis e], None)"
      using l by (simp add: analyze_passed)
    then have "e = ZeroDivisionError" using signal_rule(4) [OF l, of s e] by simp
    with o show ?thesis by simp
  next
    case (Inr v)
    then show ?thesis using l by (cases v) (simp_all add: analyze_passed)
  qed
  then show ?thesis
    by (simp add: analyze_volatility_def)
qed

theorem length_gates_witness:
  "analyze_volatility ''X'' (Some (frame (bars 0 99 100 100 100 100))) (Some flat_5m)
      (Some below_1m) = ([Error_insufficient ''15m''], None) \<and>
   analyze_volatility ''X'' (Some flat_15m) (Some (frame (bars 0 49 100 100 100 100)))
      (Some below_1m) = ([Error_insufficient ''5m''], None) \<and>
   analyze_volatility ''X'' (Some flat_15m) (Some flat_5m) (Some (frame (bars 0 9 99 99 99 99)))
      = ([Error_insufficient ''1m''], None) \<and>
   len rising_15m = 100 \<and> len ranging_5m = 50 \<and> len above_1m = 10 \<and>
   fst (analyze_volatility ''X'' (Some rising_15m) (Some ranging_5m) (Some above_1m)) = [] \<and>
   analyze_volatility ''X'' (Some flat_15m) (Some flat_5m) (Some inside_1m)
      = ([Info_no_signal], None)"
proof -
  have l: "len flat_15m = 100" "len flat_5m = 50" "len below_1m = 10" "len ranging_5m = 50"
    "len above_1m = 10" "len inside_1m = 10"
    by (simp_all add: flat_15m_def flat_5m_def below_1m_def ranging_5m_def above_1m_def
        inside_1m_def)
  have a: "analyze_volatility ''X'' (Some (frame (bars 0 99 100 100 100 100))) (Some flat_5m)
      (Some below_1m) = ([Error_insufficient ''15m''], None)"
    using length_gates [of "frame (bars 0 99 100 100 100 100)" "''X''" "Some flat_5m"
        "Some below_1m" flat_5m below_1m]
    by simp
  have b: "analyze_volatility ''X'' (Some flat_15m) (Some (frame (bars 0 49 100 100 100 100)))
      (Some below_1m) = ([Error_insufficient ''5m''], None)"
    using length_gates [of flat_15m "''X''" "Some flat_5m" "Some below_1m"
        "frame (bars 0 49 100 100 100 100)" below_1m] l
    by simp
  have c: "analyze_volatility ''X'' (Some flat_15m) (Some flat_5m)
      (Some (frame (bars 0 9 99 99 99 99))) = ([Error_insufficient ''1m''], None)"
    using length_gates [of flat_15m "''X''" "Some flat_5m" "Some below_1m" flat_5m
        "frame (bars 0 9 99 99 99 99)"] l
    by simp
  have d: "fst (analyze_volatility ''X'' (Some rising_15m) (Some ranging_5m) (Some above_1m)) = []"
    using length_gates [of rising_15m "''X''" "Some ranging_5m" "Some above_1m" ranging_5m
        above_1m] l
    by (simp add: cols_rising_15m rising_run)
  have e: "analyze_volatility ''X'' (Some flat_15m) (Some flat_5m) (Some inside_1m)
      = ([Info_no_signal], None)"
    using length_gates [of flat_15m "''X''" "Some flat_5m" "Some inside_1m" flat_5m inside_1m] l
    by (simp add: inside_run)
  from a b c d e l show ?thesis by (simp add: cols_rising_15m)
qed

text \<open>
  Claim C3, as stated: every produced signal has \<open>stopLoss < entry < takeProfit1 <
  takeProfit2\<close> for BUY and the strictly reversed ordering for SELL. It fails in a market
  that does not move: both ATR values are 0, the entry series closes below the range, and
  the SELL signal that is produced has all four prices equal to 99.
\<close>

theorem ordering_not_strict_in_flat_market:
  "(let r = \<lparr>symbol = ''X'', signal = ''SELL'', winrate = ''0.0%'', trend = ''Down trend'',
              entry = Some 99, sl = Some 99, tp1 = Some 99, tp2 = Some 99\<rparr>
    in snd (analyze_volatility ''X'' (Some flat_15m) (Some flat_5m) (Some below_1m)) = Some r \<and>
       signal r = ''SELL'' \<and>
       \<not> (f_gt (sl r) (entry r) \<and> f_gt (entry r) (tp1 r) \<and> f_gt (tp1 r) (tp2 r)))"
  by (simp add: flat_run)

text \<open>
  Claim C3, amended. For every produced signal the four prices are defined and ordered,
  not necessarily strictly: \<open>stopLoss \<le> entry \<le> takeProfit1 \<le> takeProfit2\<close> for BUY and
  the reverse for SELL. The stop differs from the entry as soon as three times the latest
  ATR(14) of the risk series exceeds \<open>0.00001\<close>, and the entry and the two targets differ
  from each other as soon as the latest ATR(14) of the trend series exceeds \<open>0.00001\<close>
  (the rounding step of the price fields).
\<close>

theorem ordering_of_signal:
  assumes "snd (analyze_volatility s got_15m got_5m got_1m) = Some r"
  shows "\<exists>df_15m df_5m atrRisk atrTarget stop e t1 t2.
    got_15m = Some df_15m \<and> got_5m = Some df_5m \<and>
    iloc_last (atr (highs df_5m) (lows df_5m) (closes df_5m) 14) = Inr (Some atrRisk) \<and>
    iloc_last (atr (highs df_15m) (lows df_15m) (closes df_15m) 14) = Inr (Some atrTarget) \<and>
    sl r = Some stop \<and> entry r = Some e \<and> tp1 r = Some t1 \<and> tp2 r = Some t2 \<and>
    (signal r = ''BUY'' \<or> signal r = ''SELL'') \<and>
    (signal r = ''BUY'' \<longrightarrow>
       stop \<le> e \<and> e \<le> t1 \<and> t1 \<le> t2 \<and>
       (1 / 10 ^ 5 < 3 * atrRisk \<longrightarrow> stop < e) \<and>
       (1 / 10 ^ 5 < atrTarget \<longrightarrow> e < t1 \<and> t1 < t2)) \<and>
    (signal r = ''SELL'' \<longrightarrow>
       e \<le> stop \<and> t1 \<le> e \<and> t2 \<le> t1 \<and>
       (1 / 10 ^ 5 < 3 * atrRisk \<longrightarrow> e < stop) \<and>
       (1 / 10 ^ 5 < atrTarget \<longrightarrow> t1 < e \<and> t2 < t1))"
proof -
  from assms obtain a b c where g: "got_15m = Some a" "got_5m = Some b" "got_1m = Some c"
    and l: "100 \<le> len a" "50 \<le> len b" "10 \<le> len c"
    and body: "analysis_body s a b c = Inr (Some r)"
    by (rule analyze_Result_passed)
  from l body obtain x y w
    where sl: "iloc_last (atr (highs b) (lows b) (closes b) 14) = Inr (Some x)" and x: "0 \<le> x"
    and tp: "iloc_last (atr (highs a) (lows a) (closes a) 14) = Inr (Some y)" and y: "0 \<le> y"
    and r: "r = buy_result s w (last (closes c)) x y \<and> trend_label a = ''Up trend'' \<or>
      r = sell_result s w (last (closes c)) x y \<and> trend_label a = ''Down trend''"
    by (rule analysis_body_Result)
  define L where "L = last (closes c)"
  note weak = round_order_weak [OF x y, of L]
  from r show ?thesis
  proof
    assume "r = buy_result s w (last (closes c)) x y \<and> trend_label a = ''Up trend''"
    then have f: "sl r = Some (py_round (L - x * 3) 5)" "entry r = Some (py_round L 5)"
      "tp1 r = Some (py_round (L + y * 1) 5)" "tp2 r = Some (py_round (L + y * 2) 5)"
      and d: "signal r = ''BUY''" "signal r \<noteq> ''SELL''"
      by (simp_all add: buy_result_def L_def)
    have "py_round (L - x * 3) 5 \<le> py_round L 5 \<and> py_round L 5 \<le> py_round (L + y * 1) 5 \<and>
        py_round (L + y * 1) 5 \<le> py_round (L + y * 2) 5 \<and>
        (1 / 10 ^ 5 < 3 * x \<longrightarrow> py_round (L - x * 3) 5 < py_round L 5) \<and>
        (1 / 10 ^ 5 < y \<longrightarrow> py_round L 5 < py_round (L + y * 1) 5 \<and>
           py_round (L + y * 1) 5 < py_round (L + y * 2) 5)"
      using weak round_order_stop [of x L] round_order_targets [of y L] by blast
    with g sl tp f d show ?thesis by blast
  next
    assume "r = sell_result s w (last (closes c)) x y \<and> trend_label a = ''Down trend''"
    then have f: "sl r = Some (py_round (L + x * 3) 5)" "entry r = Some (py_round L 5)"
      "tp1 r = Some (py_round (L - y * 1) 5)" "tp2 r = Some (py_round (L - y * 2) 5)"
      and d: "signal r = ''SELL''" "signal r \<noteq> ''BUY''"
      by (simp_all add: sell_result_def L_def)
    have "py_round L 5 \<le> py_round (L + x * 3) 5 \<and> py_round (L - y * 1) 5 \<le> py_round L 5 \<and>
        py_round (L - y * 2) 5 \<le> py_round (L - y * 1) 5 \<and>
        (1 / 10 ^ 5 < 3 * x \<longrightarrow> py_round L 5 < py_round (L + x * 3) 5) \<and>
        (1 / 10 ^ 5 < y \<longrightarrow> py_round (L - y * 1) 5 < py_round L 5 \<and>
           py_round (L - y * 2) 5 < py_round (L - y * 1) 5)"
      using weak round_order_stop [of x L] round_order_targets [of y L] by blast
    with g sl tp f d show ?thesis by blast
  qed
qed

theorem ordering_of_signal_witness:
  "snd (analyze_volatility ''X'' (Some rising_15m) (Some ranging_5m) (Some above_1m)) =
     Some \<lparr>symbol = ''X'', signal = ''BUY'', winrate = ''1.0%'', trend = ''Up trend'',
           entry = Some 120, sl = Some 117, tp1 = Some 130, tp2 = Some 140\<rparr> \<and>
   (117 :: real) < 120 \<and> (120 :: real) < 130 \<and> (130 :: real) < 140 \<and>
   snd (analyze_volatility ''X'' (Some falling_15m) (Some ranging_5m) (Some far_below_1m)) =
     Some \<lparr>symbol = ''X'', signal = ''SELL'', winrate = ''0.0%'', trend = ''Down trend'',
           entry = Some 80, sl = Some 83, tp1 = Some 70, tp2 = Some 60\<rparr> \<and>
   (80 :: real) < 83 \<and> (70 :: real) < 80 \<and> (60 :: real) < 70 \<and>
   (1 :: real) / 10 ^ 5 < 3 * 1 \<and> (1 :: real) / 10 ^ 5 < 10 \<and>
   snd (analyze_volatility ''X'' (Some flat_15m) (Some flat_5m) (Some below_1m)) =
     Some \<lparr>symbol = ''X'', signal = ''SELL'', winrate = ''0.0%'', trend = ''Down trend'',
           entry = Some 99, sl = Some 99, tp1 = Some 99, tp2 = Some 99\<rparr> \<and>
   (99 :: real) \<le> 99"
  using ordering_of_signal [OF rising_signal] ordering_of_signal [OF falling_signal]
    ordering_of_signal [OF flat_signal]
  by (simp add: rising_signal falling_signal flat_signal)

text \<open>
  Claim C4, as stated: support and resistance are taken over the 50-bar window that ends at
  the second-to-last computed point. The code reads the last point of the rolling columns
  (\<^verbatim>\<open>iloc[-1]\<close>), so the window ends at the latest candle: for the rising series the
  resistance is 110, the high of the latest candle, while the second-to-last point of the
  rolling maximum, the maximum over the 50 candles before the latest one, is 105; for the
  falling series the support is 90, not 95.
\<close>

theorem range_window_ends_at_last_candle:
  "iloc_last (rolling_max 50 (highs rising_15m)) = Inr (Some 110) \<and>
   rolling_max 50 (highs rising_15m) ! (len rising_15m - 2) = Some 105 \<and>
   Max (set (take 50 (drop (len rising_15m - 51) (highs rising_15m)))) = 105 \<and>
   iloc_last (rolling_min 50 (lows falling_15m)) = Inr (Some 90) \<and>
   rolling_min 50 (lows falling_15m) ! (len falling_15m - 2) = Some 95 \<and>
   Min (set (take 50 (drop (len falling_15m - 51) (lows falling_15m)))) = 95"
  by (simp add: rolling_max_def rolling_min_def iloc_last_rolling nth_rolling cols_rising_15m
      cols_falling_15m)

text \<open>
  Claim C4, amended. For a trend series with at least 50 candles, support is the minimum of
  the lows and resistance the maximum of the highs of the last 50 candles, the latest
  candle included. In a run that passes the length checks the buffer is
  \<open>0.005 * (resistance - support)\<close>: the run ends with \<^verbatim>\<open>No signal\<close> exactly when the
  latest entry close is neither above \<open>resistance + buffer\<close> in an up trend nor below
  \<open>support - buffer\<close> in a down trend.
\<close>

theorem range_window:
  "(50 \<le> len df \<longrightarrow>
      iloc_last (rolling_min 50 (lows df)) = Inr (Some (Min (set (drop (len df - 50) (lows df))))) \<and>
      iloc_last (rolling_max 50 (highs df)) = Inr (Some (Max (set (drop (len df - 50) (highs df))))) \<and>
      length (drop (len df - 50) (lows df)) = 50 \<and>
      length (drop (len df - 50) (highs df)) = 50 \<and>
      last (drop (len df - 50) (lows df)) = low (last (rows df)) \<and>
      last (drop (len df - 50) (highs df)) = high (last (rows df))) \<and>
   (100 \<le> len df \<and> 50 \<le> len df_5m \<and> 10 \<le> len df_1m \<longrightarrow>
      (let support = Min (set (drop (len df - 50) (lows df)));
           resistance = Max (set (drop (len df - 50) (highs df)));
           buffer = 0.005 * (resistance - support);
           last_close = last (closes df_1m)
       in analyze_volatility s (Some df) (Some df_5m) (Some df_1m) = ([Info_no_signal], None) \<longleftrightarrow>
          \<not> (last_close > resistance + buffer \<and>
             map_sum id fst (determine_trend df) = Inr ''Up trend'') \<and>
          \<not> (last_close < support - buffer \<and>
             map_sum id fst (determine_trend df) = Inr ''Down trend'')))"
proof (intro conjI impI)
  assume l: "50 \<le> len df"
  then have ne: "rows df \<noteq> []" by (auto simp: len_def)
  show "iloc_last (rolling_min 50 (lows df)) = Inr (Some (Min (set (drop (len df - 50) (lows df)))))"
    using l by (simp add: rolling_min_def iloc_last_rolling)
  show "iloc_last (rolling_max 50 (highs df)) = Inr (Some (Max (set (drop (len df - 50) (highs df)))))"
    using l by (simp add: rolling_max_def iloc_last_rolling)
  show "length (drop (len df - 50) (lows df)) = 50" using l by simp
  show "length (drop (len df - 50) (highs df)) = 50" using l by simp
  show "last (drop (len df - 50) (lows df)) = low (last (rows df))"
    using l ne by (simp add: lows_def len_def last_map)
  show "last (drop (len df - 50) (highs df)) = high (last (rows df))"
    using l ne by (simp add: highs_def len_def last_map)
next
  assume "100 \<le> len df \<and> 50 \<le> len df_5m \<and> 10 \<le> len df_1m"
  then have l: "100 \<le> len df" "50 \<le> len df_5m" "10 \<le> len df_1m" by simp_all
  have tr: "map_sum id fst (determine_trend df) = Inr (trend_label df)"
    using l(1) by (simp add: determine_trend_long trend_label_def)
  show "let support = Min (set (drop (len df - 50) (lows df)));
           resistance = Max (set (drop (len df - 50) (highs df)));
           buffer = 0.005 * (resistance - support);
           last_close = last (closes df_1m)
       in analyze_volatility s (Some df) (Some df_5m) (Some df_1m) = ([Info_no_signal], None) \<longleftrightarrow>
          \<not> (last_close > resistance + buffer \<and>
             map_sum id fst (determine_trend df) = Inr ''Up trend'') \<and>
          \<not> (last_close < support - buffer \<and>
             map_sum id fst (determine_trend df) = Inr ''Down trend'')"
    unfolding Let_def tr
    using signal_rule(3) [OF l, of s]
    by (simp add: support_level_def resistance_level_def)
qed

theorem range_window_witness:
  "iloc_last (rolling_min 50 (lows rising_15m)) = Inr (Some 95) \<and>
   iloc_last (rolling_max 50 (highs rising_15m)) = Inr (Some 110) \<and>
   analyze_volatility ''X'' (Some flat_15m) (Some flat_5m) (Some inside_1m)
     = ([Info_no_signal], None) \<and>
   \<not> ((100 :: real) > 100 + 0.005 * (100 - 100)) \<and>
   \<not> ((100 :: real) < 100 - 0.005 * (100 - 100))"
proof -
  have "50 \<le> len rising_15m" by (simp add: cols_rising_15m)
  then have a: "iloc_last (rolling_min 50 (lows rising_15m)) = Inr (Some 95)"
      "iloc_last (rolling_max 50 (highs rising_15m)) = Inr (Some 110)"
    using range_window [of rising_15m flat_5m below_1m "''X''"]
    by (simp_all add: cols_rising_15m)
  have l: "100 \<le> len flat_15m \<and> 50 \<le> len flat_5m \<and> 10 \<le> len inside_1m"
    by (simp add: flat_15m_def flat_5m_def inside_1m_def)
  have lv: "Min (set (drop (len flat_15m - 50) (lows flat_15m))) = 100"
    "Max (set (drop (len flat_15m - 50) (highs flat_15m))) = 100"
    "last (closes inside_1m) = 100"
    by (simp_all add: flat_15m_def inside_1m_def)
  have b: "analyze_volatility ''X'' (Some flat_15m) (Some flat_5m) (Some inside_1m)
     = ([Info_no_signal], None)"
    using range_window [of flat_15m flat_5m inside_1m "''X''"] l
    by (simp add: lv Let_def)
  from a b show ?thesis by simp
qed

text \<open>
  Claim C6, as stated: the closes 10, 11, 10, 12, 13, 12, 14 yield \<^verbatim>\<open>66.7%\<close>. A series
  of seven candles is below the threshold of 100 candles of \<^verbatim>\<open>calculate_winrate\<close>, which
  returns \<^verbatim>\<open>N/A\<close> for it.
\<close>

theorem winrate_example_is_below_threshold:
  "closes seven_closes = [10, 11, 10, 12, 13, 12, 14] \<and>
   calculate_winrate seven_closes = Inr ''N/A'' \<and>
   calculate_winrate seven_closes \<noteq> Inr ''66.7%''"
  by (simp add: closes_seven_closes) (simp add: calculate_winrate_def seven_closes_def)

text \<open>
  Claim C6, amended. For a series with fewer than 100 candles \<^verbatim>\<open>calculate_winrate\<close>
  returns \<^verbatim>\<open>N/A\<close>; so it does for the seven closes of the example. For a series with at
  least 100 candles in which some close is not zero, the changes that remain after
  dropping the undefined ones are not empty, and the result is the fraction of the
  strictly positive ones among them, times 100, formatted with one decimal digit and
  followed by \<^verbatim>\<open>%\<close>; when no close is zero, exactly the first change is dropped. The
  fraction of the example, 4 positive changes out of 6, is formatted as \<^verbatim>\<open>66.7%\<close>.
\<close>

theorem winrate_estimate:
  "(len data < 100 \<longrightarrow> calculate_winrate data = Inr ''N/A'') \<and>
   (100 \<le> len data \<and> (\<exists>x \<in> set (closes data). x \<noteq> 0) \<longrightarrow>
      (let changes = dropna (pct_change (closes data))
       in changes \<noteq> [] \<and>
          calculate_winrate data =
            Inr (fmt_1f (real (length (filter positive changes)) / real (length changes) * 100)
                 @ ''%''))) \<and>
   (100 \<le> len data \<and> (\<forall>x \<in> set (closes data). x \<noteq> 0) \<longrightarrow>
      length (dropna (pct_change (closes data))) = len data - 1) \<and>
   (let changes = dropna (pct_change [10, 11, 10, 12, 13, 12, 14])
    in length changes = 6 \<and> length (filter positive changes) = 4 \<and>
       fmt_1f (real (length (filter positive changes)) / real (length changes) * 100) @ ''%''
         = ''66.7%'')"
proof (intro conjI impI)
  assume "len data < 100"
  then show "calculate_winrate data = Inr ''N/A''" by (simp add: calculate_winrate_def)
next
  assume a: "100 \<le> len data \<and> (\<exists>x \<in> set (closes data). x \<noteq> 0)"
  then have "2 \<le> length (closes data)" by simp
  then have "dropna (pct_change (closes data)) \<noteq> []"
    using a dropna_pct_change_empty [of "closes data"] by blast
  then show "let changes = dropna (pct_change (closes data))
       in changes \<noteq> [] \<and>
          calculate_winrate data =
            Inr (fmt_1f (real (length (filter positive changes)) / real (length changes) * 100)
                 @ ''%'')"
    using a by (simp add: calculate_winrate_long Let_def)
next
  assume "100 \<le> len data \<and> (\<forall>x \<in> set (closes data). x \<noteq> 0)"
  then show "length (dropna (pct_change (closes data))) = len data - 1"
    using length_changes_no_zero [of "closes data"] by simp
next
  show "let changes = dropna (pct_change [10, 11, 10, 12, 13, 12, 14])
    in length changes = 6 \<and> length (filter positive changes) = 4 \<and>
       fmt_1f (real (length (filter positive changes)) / real (length changes) * 100) @ ''%''
         = ''66.7%''"
    unfolding changes_seven_closes Let_def
    using fmt_1f_two_thirds by (simp add: positive_def)
qed

theorem winrate_estimate_witness:
  "calculate_winrate seven_closes = Inr ''N/A'' \<and>
   calculate_winrate rising_15m = Inr ''1.0%'' \<and>
   length (dropna (pct_change (closes rising_15m))) = 99 \<and>
   length (filter positive (dropna (pct_change (closes rising_15m)))) = 1 \<and>
   fmt_1f (real 1 / real 99 * 100) @ ''%'' = ''1.0%''"
proof -
  have "len seven_closes < 100" by (simp add: seven_closes_def)
  then have a: "calculate_winrate seven_closes = Inr ''N/A''"
    using winrate_estimate [of seven_closes] by blast
  have c: "dropna (pct_change (closes rising_15m)) = replicate 98 (Fin 0) @ [Fin (1 / 10)]"
    using pct_change_replicate_snoc [of 98 100 110]
    by (simp add: cols_rising_15m pct_def dropna_def)
  have "100 \<le> len rising_15m \<and> (\<exists>x \<in> set (closes rising_15m). x \<noteq> 0)"
    by (simp add: cols_rising_15m)
  then have "calculate_winrate rising_15m =
      Inr (fmt_1f (real (length (filter positive (dropna (pct_change (closes rising_15m)))))
             / real (length (dropna (pct_change (closes rising_15m)))) * 100) @ ''%'')"
    using winrate_estimate [of rising_15m] by (simp add: Let_def)
  then have b: "calculate_winrate rising_15m = Inr ''1.0%''"
    using fmt_1f_rising by (simp add: c positive_def)
  from a b c fmt_1f_rising show ?thesis by (simp add: positive_def)
qed

text \<open>
  Claim C9. The result of \<^verbatim>\<open>analyze_volatility\<close>, the lines it logs and the value it
  returns, is a function of the instrument name and of the candles of the three series
  alone. Two runs on the same candles agree whatever columns an earlier run has attached
  to the frames: the frames are the only state the function writes, and the columns it
  writes are never read before they are written again.
\<close>

theorem result_depends_on_candles_only:
  assumes "map_option rows got_15m = map_option rows got_15m'"
    and "map_option rows got_5m = map_option rows got_5m'"
    and "map_option rows got_1m = map_option rows got_1m'"
  shows "analyze_volatility s got_15m got_5m got_1m =
    analyze_volatility s got_15m' got_5m' got_1m'"
proof -
  note g15 = same_rows [OF assms(1)] and g5 = same_rows [OF assms(2)]
    and g1 = same_rows [OF assms(3)]
  from g15 show ?thesis
  proof
    assume "got_15m = None \<and> got_15m' = None"
    then show ?thesis by (simp add: gate_results)
  next
    assume "\<exists>d d'. got_15m = Some d \<and> got_15m' = Some d' \<and> rows d = rows d' \<and> len d = len d'"
    then obtain a a' where a: "got_15m = Some a" "got_15m' = Some a'" "rows a = rows a'"
      "len a = len a'" by blast
    show ?thesis
    proof (cases "len a < 100")
      case True
      then show ?thesis using a by (simp add: gate_results)
    next
      case la: False
      from g5 show ?thesis
      proof
        assume "got_5m = None \<and> got_5m' = None"
        then show ?thesis using a la by (simp add: gate_results)
      next
        assume "\<exists>d d'. got_5m = Some d \<and> got_5m' = Some d' \<and> rows d = rows d' \<and> len d = len d'"
        then obtain b b' where b: "got_5m = Some b" "got_5m' = Some b'" "rows b = rows b'"
          "len b = len b'" by blast
        show ?thesis
        proof (cases "len b < 50")
          case True
          then show ?thesis using a la b by (simp add: gate_results)
        next
          case lb: False
          from g1 show ?thesis
          proof
            assume "got_1m = None \<and> got_1m' = None"
            then show ?thesis using a la b lb by (simp add: gate_results)
          next
            assume "\<exists>d d'. got_1m = Some d \<and> got_1m' = Some d' \<and> rows d = rows d' \<and>
              len d = len d'"
            then obtain c c' where c: "got_1m = Some c" "got_1m' = Some c'" "rows c = rows c'"
              "len c = len c'" by blast
            show ?thesis
            proof (cases "len c < 10")
              case True
              then show ?thesis using a la b lb c by (simp add: gate_results)
            next
              case False
              then show ?thesis
                using a la b lb c analysis_body_rows [OF a(3) b(3) c(3), of s]
                by (simp add: analyze_passed)
            qed
          qed
        qed
      qed
    qed
  qed
qed

theorem result_depends_on_candles_only_witness:
  "analyze_volatility ''X'' (Some rising_15m) (Some ranging_5m) (Some above_1m) =
   analyze_volatility ''X''
     (Some (attach_atr rising_15m\<lparr>EMA20 := Some [], EMA50 := Some [Some 1]\<rparr>))
     (Some (attach_atr ranging_5m)) (Some (above_1m\<lparr>ATR := Some [None]\<rparr>)) \<and>
   snd (analyze_volatility ''X''
     (Some (attach_atr rising_15m\<lparr>EMA20 := Some [], EMA50 := Some [Some 1]\<rparr>))
     (Some (attach_atr ranging_5m)) (Some (above_1m\<lparr>ATR := Some [None]\<rparr>))) =
     Some \<lparr>symbol = ''X'', signal = ''BUY'', winrate = ''1.0%'', trend = ''Up trend'',
           entry = Some 120, sl = Some 117, tp1 = Some 130, tp2 = Some 140\<rparr>"
proof -
  have "analyze_volatility ''X'' (Some rising_15m) (Some ranging_5m) (Some above_1m) =
   analyze_volatility ''X''
     (Some (attach_atr rising_15m\<lparr>EMA20 := Some [], EMA50 := Some [Some 1]\<rparr>))
     (Some (attach_atr ranging_5m)) (Some (above_1m\<lparr>ATR := Some [None]\<rparr>))"
    by (rule result_depends_on_candles_only) simp_all
  then show ?thesis using rising_signal by simp
qed

text \<open>
  Claim C8, as stated: computing the indicators and the trend label leaves the input
  series unchanged. \<^verbatim>\<open>determine_trend\<close> writes the columns \<^verbatim>\<open>EMA20\<close> and
  \<^verbatim>\<open>EMA50\<close> into the frame it is given, and \<^verbatim>\<open>analyze_volatility\<close> writes the column
  \<^verbatim>\<open>ATR\<close> into its frames: after the call the frame is not the one that was passed in.
\<close>

theorem determine_trend_changes_frame:
  "map_sum id snd (determine_trend flat_15m) \<noteq> Inr flat_15m \<and>
   EMA20 flat_15m = None \<and>
   map_sum id (EMA20 \<circ> snd) (determine_trend flat_15m) = Inr (Some (ema (closes flat_15m) 20)) \<and>
   attach_atr flat_5m \<noteq> flat_5m"
proof -
  have l: "50 \<le> len flat_15m" by (simp add: flat_15m_def)
  have e: "EMA20 flat_15m = None" "ATR flat_5m = None"
    by (simp_all add: flat_15m_def flat_5m_def frame_def)
  have d: "map_sum id (EMA20 \<circ> snd) (determine_trend flat_15m)
      = Inr (Some (ema (closes flat_15m) 20))"
    using l by (simp add: determine_trend_long)
  have "map_sum id snd (determine_trend flat_15m) \<noteq> Inr flat_15m"
  proof
    assume "map_sum id snd (determine_trend flat_15m) = Inr flat_15m"
    then have "map_sum id (EMA20 \<circ> snd) (determine_trend flat_15m) = Inr (EMA20 flat_15m)"
      by (cases "determine_trend flat_15m") auto
    with d e show False by simp
  qed
  moreover have "attach_atr flat_5m \<noteq> flat_5m"
  proof
    assume "attach_atr flat_5m = flat_5m"
    then have "ATR (attach_atr flat_5m) = ATR flat_5m" by simp
    with e show False by (simp add: attach_atr_def)
  qed
  ultimately show ?thesis using d e by simp
qed

text \<open>
  Claim C8, amended. Computing the indicators and the trend label leaves the candles of
  the input series unchanged: the rows of the frame, hence its length and its open, high,
  low and close columns. The frame itself is changed: \<^verbatim>\<open>determine_trend\<close> attaches the
  columns \<^verbatim>\<open>EMA20\<close> and \<^verbatim>\<open>EMA50\<close> to a frame of at least 50 candles (and leaves a
  shorter frame as it is), and \<^verbatim>\<open>analyze_volatility\<close> attaches the column \<^verbatim>\<open>ATR\<close>; each
  of the two leaves the columns of the other untouched.
\<close>

theorem indicators_keep_candles:
  "rows (attach_atr df) = rows df \<and>
   ATR (attach_atr df) = Some (atr (highs df) (lows df) (closes df) 14) \<and>
   EMA20 (attach_atr df) = EMA20 df \<and> EMA50 (attach_atr df) = EMA50 df \<and>
   (len df < 50 \<longrightarrow> map_sum id snd (determine_trend df) = Inr df) \<and>
   (50 \<le> len df \<longrightarrow>
      (\<exists>l df'. determine_trend df = Inr (l, df') \<and>
         rows df' = rows df \<and> len df' = len df \<and>
         highs df' = highs df \<and> lows df' = lows df \<and> closes df' = closes df \<and>
         ATR df' = ATR df \<and>
         EMA20 df' = Some (ema (closes df) 20) \<and> EMA50 df' = Some (ema (closes df) 50)))"
  by (simp add: attach_atr_def determine_trend_short determine_trend_long len_def highs_def
      lows_def closes_def)

theorem indicators_keep_candles_witness:
  "rows (attach_atr flat_5m) = rows flat_5m \<and>
   map_sum id (rows \<circ> snd) (determine_trend flat_15m) = Inr (rows flat_15m) \<and>
   map_sum id snd (determine_trend (frame (bars 0 49 1 1 1 1))) = Inr (frame (bars 0 49 1 1 1 1))"
proof -
  have "50 \<le> len flat_15m" by (simp add: flat_15m_def)
  then have a: "map_sum id (rows \<circ> snd) (determine_trend flat_15m) = Inr (rows flat_15m)"
    using indicators_keep_candles [of flat_15m] by auto
  have "len (frame (bars 0 49 1 1 1 1)) < 50" by simp
  then have b: "map_sum id snd (determine_trend (frame (bars 0 49 1 1 1 1)))
      = Inr (frame (bars 0 49 1 1 1 1))"
    using indicators_keep_candles [of "frame (bars 0 49 1 1 1 1)"] by blast
  from a b indicators_keep_candles [of flat_5m] show ?thesis by simp
qed

text \<open>
  Claim C1. The claim says that a SELL signal is emitted whenever the latest entry close is
  below \<open>support - buffer\<close> and the trend label is \<^verbatim>\<open>Down trend\<close>. On a trend series whose
  closes are all zero the code meets this condition, builds the SELL signal, and then
  divides by zero in \<^verbatim>\<open>calculate_winrate\<close>: every change is \<open>0 / 0\<close> and is dropped, and
  the fraction is taken of an empty series. The exception handler logs the error and
  \<^verbatim>\<open>None\<close> is returned instead of the signal. The lemma \<open>signal_rule\<close> shows that this is
  the only case in which the rule of the claim fails.
\<close>

theorem sell_breakout_lost_on_zero_closes:
  "len zero_15m = 100 \<and> len flat_5m = 50 \<and> len negative_1m = 10 \<and>
   iloc_last (rolling_min 50 (lows zero_15m)) = Inr (Some 0) \<and>
   iloc_last (rolling_max 50 (highs zero_15m)) = Inr (Some 0) \<and>
   iloc_last (map Some (closes negative_1m)) = Inr (Some (- 1)) \<and>
   map_sum id fst (determine_trend zero_15m) = Inr ''Down trend'' \<and>
   (- 1 :: real) < 0 - 0.005 * (0 - 0) \<and>
   calculate_winrate zero_15m = Inl ZeroDivisionError \<and>
   analyze_volatility ''X'' (Some zero_15m) (Some flat_5m) (Some negative_1m) =
     ([Error_analysis ZeroDivisionError], None)"
proof -
  have l: "len zero_15m = 100" "len flat_5m = 50" "len negative_1m = 10"
    by (simp_all add: zero_15m_def flat_5m_def negative_1m_def)
  have s: "iloc_last (rolling_min 50 (lows zero_15m)) = Inr (Some (support_level zero_15m))"
      "iloc_last (rolling_max 50 (highs zero_15m)) = Inr (Some (resistance_level zero_15m))"
    using l by (simp_all add: rolling_min_def rolling_max_def iloc_last_rolling
        support_level_def resistance_level_def)
  have c: "iloc_last (map Some (closes negative_1m)) = Inr (Some (- 1))"
    by (simp add: negative_1m_def iloc_last_def)
  have t: "map_sum id fst (determine_trend zero_15m) = Inr (trend_label zero_15m)"
    using l by (simp add: determine_trend_long trend_label_def)
  from l s c t show ?thesis
    by (simp add: levels_zero_15m winrate_zero_15m zero_run)
qed

end
